theory Spec2Isabelle
  imports Main
begin

section \<open>Configuration model and generated DDL\<close>

text \<open>
  The configuration is the dictionary that \<^verbatim>\<open>yaml.safe_load\<close> returns. Scalar YAML values are
  modelled by \<open>literal\<close>; a key that the code reads with \<^verbatim>\<open>.get\<close> is an optional field,
  a key that it reads with \<^verbatim>\<open>[...]\<close> is a plain field.
\<close>

datatype literal = YNull | YBool bool | YInt int | YStr string

text \<open>Python truth value of a scalar.\<close>

fun truthy :: "literal \<Rightarrow> bool" where
  "truthy YNull = False"
| "truthy (YBool b) = b"
| "truthy (YInt i) = (i \<noteq> 0)"
| "truthy (YStr s) = (s \<noteq> [])"

text \<open>\<^verbatim>\<open>d.get(key)\<close> used as a condition: a missing key gives \<^verbatim>\<open>None\<close>, which is false.\<close>

definition get_truthy :: "literal option \<Rightarrow> bool" where
  "get_truthy v = (case v of None \<Rightarrow> False | Some x \<Rightarrow> truthy x)"

text \<open>\<^verbatim>\<open>d.get(key, True)\<close> used as a condition.\<close>

definition get_truthy_default_true :: "literal option \<Rightarrow> bool" where
  "get_truthy_default_true v = (case v of None \<Rightarrow> True | Some x \<Rightarrow> truthy x)"

function str_nat :: "nat \<Rightarrow> string" where
  "str_nat n = (if n < 10 then [''0123456789'' ! n]
                else str_nat (n div 10) @ [''0123456789'' ! (n mod 10)])"
  by pat_completeness auto
termination
  by (relation "measure id") auto

declare str_nat.simps [simp del]

definition str_int :: "int \<Rightarrow> string" where
  "str_int i = (if i < 0 then ''-'' @ str_nat (nat (- i)) else str_nat (nat i))"

text \<open>The text an f-string puts in for a scalar (\<^verbatim>\<open>str(v)\<close>).\<close>

fun py_str :: "literal \<Rightarrow> string" where
  "py_str YNull = ''None''"
| "py_str (YBool b) = (if b then ''True'' else ''False'')"
| "py_str (YInt i) = str_int i"
| "py_str (YStr s) = s"

record column_spec =
  col_type :: string
  col_nullable :: "literal option"
  col_unique :: "literal option"
  col_primary_key :: "literal option"
  col_default :: "literal option"

record index_spec =
  idx_name :: string
  idx_columns :: "string list"
  idx_unique :: "literal option"

record table_schema =
  table_name :: string
  schema_columns :: "(string \<times> column_spec) list"

record config =
  cfg_table_schema :: table_schema
  cfg_indexes :: "index_spec list option"

text \<open>\<^verbatim>\<open>sep.join(xs)\<close>\<close>

fun join :: "string \<Rightarrow> string list \<Rightarrow> string" where
  "join sep [] = []"
| "join sep [x] = x"
| "join sep (x # y # ys) = x @ sep @ join sep (y # ys)"

text \<open>The body of the loop over the columns in \<^verbatim>\<open>create_table\<close>: one column definition.\<close>

definition col_def :: "string \<Rightarrow> column_spec \<Rightarrow> string" where
  "col_def col_name col_config =
     (let d = ''    '' @ col_name @ '' '' @ col_type col_config;
          d = (if get_truthy (col_primary_key col_config) then d @ '' PRIMARY KEY''
               else if get_truthy (col_unique col_config) then d @ '' UNIQUE''
               else d);
          d = (if \<not> get_truthy_default_true (col_nullable col_config) then d @ '' NOT NULL''
               else d);
          d = (if get_truthy (col_default col_config)
               then (case col_default col_config of
                       Some v \<Rightarrow> d @ '' DEFAULT '' @ py_str v
                     | None \<Rightarrow> d)
               else d)
      in d)"

definition create_sql :: "table_schema \<Rightarrow> string" where
  "create_sql ts =
     ''CREATE TABLE IF NOT EXISTS '' @ table_name ts @ '' ('' @ [CHR 0x0A]
       @ join ('','' @ [CHR 0x0A]) (map (\<lambda>(n, c). col_def n c) (schema_columns ts))
       @ [CHR 0x0A] @ '');''"


section \<open>Data frames\<close>

text \<open>
  A cell of a pandas \<^verbatim>\<open>DataFrame\<close>: the three missing-value markers (\<^verbatim>\<open>float('nan')\<close>,
  \<^verbatim>\<open>None\<close>, \<^verbatim>\<open>NaT\<close>), a string, a number or a timestamp. Numbers and timestamps are type
  parameters: the program only hands them to pandas and to the clock.
\<close>

datatype ('n, 'd) cell = NaN | PyNone | NaT | Str string | Num 'n | Date 'd

text \<open>What \<^verbatim>\<open>to_sql\<close> writes as SQL \<^verbatim>\<open>NULL\<close>.\<close>

fun is_null :: "('n, 'd) cell \<Rightarrow> bool" where
  "is_null NaN = True"
| "is_null PyNone = True"
| "is_null NaT = True"
| "is_null _ = False"

type_synonym label = string

text \<open>
  A frame is its index length and its columns in order; pandas allows a label to occur more
  than once.
\<close>

record ('n, 'd) frame =
  nrows :: nat
  columns :: "(label \<times> ('n, 'd) cell list) list"

definition labels :: "('n, 'd) frame \<Rightarrow> label list" where
  "labels f = map fst (columns f)"

datatype error = ValueError | TypeError | AttributeError | KeyError
  | ReadError string | OperationalError | DuplicateObject string | DatabaseError string

text \<open>
  \<^verbatim>\<open>df[col]\<close>: a \<^verbatim>\<open>Series\<close> when the label occurs once, a \<^verbatim>\<open>DataFrame\<close> of the columns that
  carry it when it occurs several times, \<^verbatim>\<open>KeyError\<close> when it does not occur.
\<close>

datatype ('n, 'd) selection = Series "('n, 'd) cell list" | SubFrame "('n, 'd) cell list list"

definition getitem :: "('n, 'd) frame \<Rightarrow> label \<Rightarrow> error + ('n, 'd) selection" where
  "getitem f col =
     (case map snd (filter (\<lambda>(l, c). l = col) (columns f)) of
        [] \<Rightarrow> Inl KeyError
      | [c] \<Rightarrow> Inr (Series c)
      | cs \<Rightarrow> Inr (SubFrame cs))"

text \<open>
  \<^verbatim>\<open>df[col] = values\<close>: every column that carries the label is replaced where it stands; a
  new label is appended as the last column.
\<close>

definition setitem :: "('n, 'd) frame \<Rightarrow> label \<Rightarrow> ('n, 'd) cell list \<Rightarrow> ('n, 'd) frame" where
  "setitem f col vals =
     (if col \<in> set (labels f)
      then f\<lparr>columns := map (\<lambda>(l, c). if l = col then (l, vals) else (l, c)) (columns f)\<rparr>
      else f\<lparr>columns := columns f @ [(col, vals)]\<rparr>)"

text \<open>\<^verbatim>\<open>df[col] = scalar\<close>: the scalar is broadcast to every row.\<close>

definition setitem_scalar :: "('n, 'd) frame \<Rightarrow> label \<Rightarrow> ('n, 'd) cell \<Rightarrow> ('n, 'd) frame" where
  "setitem_scalar f col v = setitem f col (replicate (nrows f) v)"

text \<open>\<^verbatim>\<open>df.rename(columns=mapping)\<close>: a label in the dictionary is replaced, any other is kept.\<close>

definition target :: "(label \<times> label) list \<Rightarrow> label \<Rightarrow> label" where
  "target mapping l = (case map_of mapping l of Some t \<Rightarrow> t | None \<Rightarrow> l)"

definition rename :: "(label \<times> label) list \<Rightarrow> ('n, 'd) frame \<Rightarrow> ('n, 'd) frame" where
  "rename mapping f = f\<lparr>columns := map (\<lambda>(l, c). (target mapping l, c)) (columns f)\<rparr>"

subsection \<open>The pandas conversions\<close>

text \<open>
  The parsers of pandas are parameters of the model. A parser sees the whole column and the
  position (pandas infers a date format from the column), and answers \<open>None\<close> where
  \<^verbatim>\<open>errors='coerce'\<close> gives up. \<open>str_of_num\<close> and \<open>str_of_date\<close> are \<^verbatim>\<open>str\<close> on a number and on
  a timestamp.
\<close>

record ('n, 'd) pandas =
  parse_datetime :: "('n, 'd) cell list \<Rightarrow> nat \<Rightarrow> 'd option"
  parse_numeric :: "('n, 'd) cell list \<Rightarrow> nat \<Rightarrow> 'n option"
  str_of_num :: "'n \<Rightarrow> string"
  str_of_date :: "'d \<Rightarrow> string"

text \<open>An empty cell: a missing-value marker or the empty string.\<close>

fun is_empty :: "('n, 'd) cell \<Rightarrow> bool" where
  "is_empty (Str s) = (s = [])"
| "is_empty (Num n) = False"
| "is_empty (Date d) = False"
| "is_empty _ = True"

text \<open>\<^verbatim>\<open>pd.to_datetime(series, errors='coerce')\<close>, cell by cell.\<close>

definition datetime_cell :: "('n, 'd) pandas \<Rightarrow> ('n, 'd) cell list \<Rightarrow> nat \<times> ('n, 'd) cell \<Rightarrow> ('n, 'd) cell" where
  "datetime_cell pd col = (\<lambda>(i, c).
     if is_empty c then NaT
     else (case parse_datetime pd col i of Some d \<Rightarrow> Date d | None \<Rightarrow> NaT))"

definition to_datetime :: "('n, 'd) pandas \<Rightarrow> ('n, 'd) selection \<Rightarrow> error + ('n, 'd) cell list" where
  "to_datetime pd arg =
     (case arg of
        Series col \<Rightarrow> Inr (map (datetime_cell pd col) (enumerate 0 col))
      | SubFrame cs \<Rightarrow> Inl ValueError)"

text \<open>\<^verbatim>\<open>pd.to_numeric(series, errors='coerce')\<close>, cell by cell.\<close>

definition numeric_cell :: "('n, 'd) pandas \<Rightarrow> ('n, 'd) cell list \<Rightarrow> nat \<times> ('n, 'd) cell \<Rightarrow> ('n, 'd) cell" where
  "numeric_cell pd col = (\<lambda>(i, c).
     if is_empty c then NaN
     else (case parse_numeric pd col i of Some n \<Rightarrow> Num n | None \<Rightarrow> NaN))"

definition to_numeric :: "('n, 'd) pandas \<Rightarrow> ('n, 'd) selection \<Rightarrow> error + ('n, 'd) cell list" where
  "to_numeric pd arg =
     (case arg of
        Series col \<Rightarrow> Inr (map (numeric_cell pd col) (enumerate 0 col))
      | SubFrame cs \<Rightarrow> Inl TypeError)"

text \<open>\<^verbatim>\<open>str(x)\<close> on a cell, as \<^verbatim>\<open>astype(str)\<close> applies it.\<close>

fun cell_str :: "('n, 'd) pandas \<Rightarrow> ('n, 'd) cell \<Rightarrow> string" where
  "cell_str pd NaN = ''nan''"
| "cell_str pd PyNone = ''None''"
| "cell_str pd NaT = ''NaT''"
| "cell_str pd (Str s) = s"
| "cell_str pd (Num n) = str_of_num pd n"
| "cell_str pd (Date d) = str_of_date pd d"

text \<open>
  \<^verbatim>\<open>str.isspace\<close> on the characters below 256, read as code points, and \<^verbatim>\<open>str.strip()\<close>.
\<close>

definition py_isspace :: "char \<Rightarrow> bool" where
  "py_isspace c = (c \<in> {CHR 0x09, CHR 0x0A, CHR 0x0B, CHR 0x0C, CHR 0x0D, CHR 0x1C, CHR 0x1D,
                        CHR 0x1E, CHR 0x1F, CHR 0x20, CHR 0x85, CHR 0xA0})"

definition strip :: "string \<Rightarrow> string" where
  "strip s = rev (dropWhile py_isspace (rev (dropWhile py_isspace s)))"

text \<open>\<^verbatim>\<open>series.astype(str).str.strip()\<close> followed by \<^verbatim>\<open>.replace('nan', None)\<close>, on one cell.\<close>

definition clean_cell :: "('n, 'd) pandas \<Rightarrow> ('n, 'd) cell \<Rightarrow> ('n, 'd) cell" where
  "clean_cell pd c = (let s = strip (cell_str pd c) in if s = ''nan'' then PyNone else Str s)"

text \<open>
  \<^verbatim>\<open>df[col].astype(str).str.strip()\<close> raises \<^verbatim>\<open>AttributeError\<close> when \<^verbatim>\<open>df[col]\<close> is a
  \<^verbatim>\<open>DataFrame\<close>, which has no \<^verbatim>\<open>.str\<close>.
\<close>

definition clean_strings :: "('n, 'd) pandas \<Rightarrow> ('n, 'd) selection \<Rightarrow> error + ('n, 'd) cell list" where
  "clean_strings pd arg =
     (case arg of
        Series col \<Rightarrow> Inr (map (clean_cell pd) col)
      | SubFrame cs \<Rightarrow> Inl AttributeError)"


section \<open>Record preparation\<close>

text \<open>
  Python variables hold references. The heap is the list of the frames allocated so far, an
  address is a position in it. \<^verbatim>\<open>df.copy()\<close> and \<^verbatim>\<open>df.rename(...)\<close> allocate a new frame;
  \<^verbatim>\<open>df[col] = ...\<close> changes the frame at the address in place.
\<close>

type_synonym addr = nat
type_synonym ('n, 'd) heap = "('n, 'd) frame list"

definition df_copy :: "('n, 'd) heap \<Rightarrow> addr \<Rightarrow> addr \<times> ('n, 'd) heap" where
  "df_copy h a = (length h, h @ [h ! a])"

definition df_rename :: "(label \<times> label) list \<Rightarrow> ('n, 'd) heap \<Rightarrow> addr \<Rightarrow> addr \<times> ('n, 'd) heap" where
  "df_rename mapping h a = (length h, h @ [rename mapping (h ! a)])"

definition df_setitem :: "('n, 'd) heap \<Rightarrow> addr \<Rightarrow> label \<Rightarrow> ('n, 'd) cell list \<Rightarrow> ('n, 'd) heap" where
  "df_setitem h a col vals = h[a := setitem (h ! a) col vals]"

definition df_setitem_scalar :: "('n, 'd) heap \<Rightarrow> addr \<Rightarrow> label \<Rightarrow> ('n, 'd) cell \<Rightarrow> ('n, 'd) heap" where
  "df_setitem_scalar h a col v = h[a := setitem_scalar (h ! a) col v]"

text \<open>
  The clock: the readings that successive calls of \<^verbatim>\<open>pd.Timestamp.now()\<close> return. A call
  takes the first reading and leaves the rest.
\<close>

type_synonym 'd clock = "nat \<Rightarrow> 'd"

definition now :: "'d clock \<Rightarrow> 'd \<times> 'd clock" where
  "now clk = (clk 0, \<lambda>n. clk (Suc n))"

definition column_mapping :: "(label \<times> label) list" where
  "column_mapping =
     [(''S.no'', ''serial_number''),
      (''Status'', ''status''),
      (''Farmer Code'', ''farmer_code''),
      (''Farmer Name'', ''farmer_name''),
      (''Govt id num'', ''govt_id_number''),
      (''Primary Contact'', ''primary_contact''),
      (''Farmer Created Date'', ''farmer_created_date''),
      (''Plot Created Date'', ''plot_created_date''),
      (''Sync Date'', ''sync_date''),
      (''Updation Date'', ''updation_date''),
      (''Area'', ''area''),
      (''GPS Area'', ''gps_area''),
      (''Village'', ''village''),
      (''source_sheet'', ''source_sheet'')]"

definition date_columns :: "label list" where
  "date_columns = [''farmer_created_date'', ''plot_created_date'', ''sync_date'', ''updation_date'']"

definition numeric_columns :: "label list" where
  "numeric_columns = [''serial_number'', ''area'', ''gps_area'']"

definition string_columns :: "label list" where
  "string_columns = [''status'', ''farmer_code'', ''farmer_name'', ''govt_id_number'',
                     ''primary_contact'', ''village'', ''source_sheet'']"

text \<open>
  One round of a conversion loop:
  \<^verbatim>\<open>if col in df_prep.columns: df_prep[col] = conv(df_prep[col])\<close>.
  An exception leaves the loop with the heap as it is.
\<close>

definition convert_column ::
  "(('n, 'd) selection \<Rightarrow> error + ('n, 'd) cell list) \<Rightarrow> label \<Rightarrow> addr \<Rightarrow> ('n, 'd) heap
     \<Rightarrow> error option \<times> ('n, 'd) heap" where
  "convert_column conv col a h =
     (if col \<in> set (labels (h ! a))
      then (case getitem (h ! a) col of
              Inl e \<Rightarrow> (Some e, h)
            | Inr sel \<Rightarrow>
                (case conv sel of
                   Inl e \<Rightarrow> (Some e, h)
                 | Inr vals \<Rightarrow> (None, df_setitem h a col vals)))
      else (None, h))"

fun for_columns ::
  "(('n, 'd) selection \<Rightarrow> error + ('n, 'd) cell list) \<Rightarrow> label list \<Rightarrow> addr \<Rightarrow> ('n, 'd) heap
     \<Rightarrow> error option \<times> ('n, 'd) heap" where
  "for_columns conv [] a h = (None, h)"
| "for_columns conv (col # cols) a h =
     (case convert_column conv col a h of
        (Some e, h') \<Rightarrow> (Some e, h')
      | (None, h') \<Rightarrow> for_columns conv cols a h')"

text \<open>
  \<^verbatim>\<open>_prepare_data_for_db\<close>: the result is the exception raised or the address of the frame
  returned, with the clock and the heap as the call leaves them.
\<close>

definition prepare_data_for_db ::
  "('n, 'd) pandas \<Rightarrow> 'd clock \<Rightarrow> ('n, 'd) heap \<Rightarrow> addr \<Rightarrow> (error + addr) \<times> 'd clock \<times> ('n, 'd) heap" where
  "prepare_data_for_db pd clk h df =
     (let (df_prep, h) = df_copy h df;
          (df_prep, h) = df_rename column_mapping h df_prep
      in case for_columns (to_datetime pd) date_columns df_prep h of
           (Some e, h) \<Rightarrow> (Inl e, clk, h)
         | (None, h) \<Rightarrow>
        (case for_columns (to_numeric pd) numeric_columns df_prep h of
           (Some e, h) \<Rightarrow> (Inl e, clk, h)
         | (None, h) \<Rightarrow>
        (case for_columns (clean_strings pd) string_columns df_prep h of
           (Some e, h) \<Rightarrow> (Inl e, clk, h)
         | (None, h) \<Rightarrow>
           (let (t, clk) = now clk;
                h = df_setitem_scalar h df_prep ''imported_at'' (Date t);
                (t, clk) = now clk;
                h = df_setitem_scalar h df_prep ''created_at'' (Date t);
                (t, clk) = now clk;
                h = df_setitem_scalar h df_prep ''updated_at'' (Date t)
            in (Inr df_prep, clk, h)))))"


subsection \<open>The prepared frame as one expression\<close>

text \<open>How many columns of a frame carry a label.\<close>

definition occurs :: "('n, 'd) frame \<Rightarrow> label \<Rightarrow> nat" where
  "occurs f col = length (filter (\<lambda>(l, c). l = col) (columns f))"

text \<open>
  No converted column name is carried by two columns once the headers are renamed. This is
  the condition under which \<^verbatim>\<open>df_prep[col]\<close> is a \<^verbatim>\<open>Series\<close> in every round of the three loops.
\<close>

definition unambiguous :: "('n, 'd) frame \<Rightarrow> bool" where
  "unambiguous f =
     (\<forall>col \<in> set (date_columns @ numeric_columns @ string_columns).
        occurs (rename column_mapping f) col \<le> 1)"

definition convert :: "('n, 'd) pandas \<Rightarrow> label \<Rightarrow> ('n, 'd) cell list \<Rightarrow> ('n, 'd) cell list" where
  "convert pd l c =
     (if l \<in> set date_columns then map (datetime_cell pd c) (enumerate 0 c)
      else if l \<in> set numeric_columns then map (numeric_cell pd c) (enumerate 0 c)
      else if l \<in> set string_columns then map (clean_cell pd) c
      else c)"

text \<open>The renamed frame with every column converted as its name asks.\<close>

definition converted :: "('n, 'd) pandas \<Rightarrow> ('n, 'd) frame \<Rightarrow> ('n, 'd) frame" where
  "converted pd f =
     (rename column_mapping f)
       \<lparr>columns := map (\<lambda>(l, c). (l, convert pd l c)) (columns (rename column_mapping f))\<rparr>"

definition prepared :: "('n, 'd) pandas \<Rightarrow> 'd clock \<Rightarrow> ('n, 'd) frame \<Rightarrow> ('n, 'd) frame" where
  "prepared pd clk f =
     (let r = converted pd f;
          r = setitem_scalar r ''imported_at'' (Date (clk 0));
          r = setitem_scalar r ''created_at'' (Date (clk 1));
          r = setitem_scalar r ''updated_at'' (Date (clk 2))
      in r)"

section \<open>The database\<close>

text \<open>
  The server is what the loader sees of it: the relations with their rows, and the catalog
  view \<^verbatim>\<open>pg_indexes\<close> as pairs of table name and index name. Tables and indexes share one
  name space. A NULL is the cell \<open>PyNone\<close>.
\<close>

type_synonym ('n, 'd) row = "(label \<times> ('n, 'd) cell) list"

record ('n, 'd) database =
  db_tables :: "(string \<times> ('n, 'd) row list) list"
  pg_indexes :: "(string \<times> string) list"

definition relation_names :: "('n, 'd) database \<Rightarrow> string list" where
  "relation_names db = map fst (db_tables db) @ map snd (pg_indexes db)"

text \<open>
  The engine handle that \<^verbatim>\<open>create_engine\<close> gives. How the server answers is fixed for a run:
  whether it can be reached, which statement texts it refuses (syntax, unknown type or
  column, permissions, a uniqueness violation), which table pandas may not create, and
  which batches of rows it refuses for a table.
\<close>

record ('n, 'd) engine =
  connects :: bool
  rejects :: "string \<Rightarrow> bool"
  rejects_create :: "string \<Rightarrow> bool"
  rejects_insert :: "string \<Rightarrow> ('n, 'd) row list \<Rightarrow> bool"

record ('n, 'd) loader =
  ld_config :: config
  ld_engine :: "('n, 'd) engine option"

text \<open>The calls of the logger, one constructor for each message.\<close>

datatype event =
    TableCreated string
  | IndexCreated string
  | IndexExists string
  | FailedCreateTable error
  | FailedCreateIndexes error
  | CsvNotFound string
  | ReadingCsv string
  | LoadedFromCsv nat
  | LoadingRecords nat string
  | SuccessfullyLoaded nat
  | FailedLoad error
  | Verification nat
  | VerificationSuccessful
  | VerificationWarning nat nat
  | FailedVerify error
  | FailedStats error



subsection \<open>Statements\<close>

text \<open>\<^verbatim>\<open>CREATE TABLE IF NOT EXISTS\<close>: nothing happens when a relation of that name exists.\<close>

definition exec_create_table ::
  "('n, 'd) engine \<Rightarrow> ('n, 'd) database \<Rightarrow> string \<Rightarrow> string \<Rightarrow> error + ('n, 'd) database" where
  "exec_create_table eng db sql name =
     (if rejects eng sql then Inl (DatabaseError sql)
      else if name \<in> set (relation_names db) then Inr db
      else Inr (db\<lparr>db_tables := db_tables db @ [(name, [])]\<rparr>))"

text \<open>\<^verbatim>\<open>CREATE INDEX\<close>: a relation of that name is a duplicate object.\<close>

definition exec_create_index ::
  "('n, 'd) engine \<Rightarrow> ('n, 'd) database \<Rightarrow> string \<Rightarrow> string \<Rightarrow> string \<Rightarrow> error + ('n, 'd) database" where
  "exec_create_index eng db sql tname iname =
     (if rejects eng sql then Inl (DatabaseError sql)
      else if tname \<notin> set (map fst (db_tables db)) then Inl (DatabaseError sql)
      else if iname \<in> set (relation_names db) then Inl (DuplicateObject iname)
      else Inr (db\<lparr>pg_indexes := pg_indexes db @ [(tname, iname)]\<rparr>))"

text \<open>A multi-row \<^verbatim>\<open>INSERT\<close> adds its rows after the rows of the table.\<close>

definition exec_insert ::
  "('n, 'd) engine \<Rightarrow> ('n, 'd) database \<Rightarrow> string \<Rightarrow> ('n, 'd) row list \<Rightarrow> error + ('n, 'd) database" where
  "exec_insert eng db name batch =
     (if rejects_insert eng name batch then Inl (DatabaseError name)
      else if name \<notin> set (map fst (db_tables db)) then Inl (DatabaseError name)
      else Inr (db\<lparr>db_tables := map (\<lambda>(n, rs). if n = name then (n, rs @ batch) else (n, rs)) (db_tables db)\<rparr>))"

definition count_sql :: "string \<Rightarrow> string" where
  "count_sql tname = ''SELECT COUNT(*) FROM '' @ tname"

definition query_count :: "('n, 'd) engine \<Rightarrow> ('n, 'd) database \<Rightarrow> string \<Rightarrow> error + nat" where
  "query_count eng db tname =
     (if rejects eng (count_sql tname) then Inl (DatabaseError (count_sql tname))
      else (case map_of (db_tables db) tname of
              None \<Rightarrow> Inl (DatabaseError (count_sql tname))
            | Some rows \<Rightarrow> Inr (length rows)))"

definition group_sql :: "string \<Rightarrow> string \<Rightarrow> string" where
  "group_sql col tname =
     [CHR 0x0A] @ replicate 20 CHR '' '' @ ''SELECT '' @ col @ '', COUNT(*) as count '' @
     [CHR 0x0A] @ replicate 20 CHR '' '' @ ''FROM '' @ tname @ '' '' @
     [CHR 0x0A] @ replicate 20 CHR '' '' @ ''GROUP BY '' @ col @ '' '' @
     [CHR 0x0A] @ replicate 20 CHR '' '' @ ''ORDER BY count DESC'' @
     [CHR 0x0A] @ replicate 16 CHR '' ''"

definition column_value :: "label \<Rightarrow> ('n, 'd) row \<Rightarrow> ('n, 'd) cell" where
  "column_value col r = (case map_of r col of None \<Rightarrow> PyNone | Some v \<Rightarrow> v)"

text \<open>
  The groups of a column with their sizes, largest first; groups of one size stand in the
  order of \<open>remdups\<close>.
\<close>

definition group_count :: "label \<Rightarrow> ('n, 'd) row list \<Rightarrow> (('n, 'd) cell \<times> nat) list" where
  "group_count col rows =
     (let vs = map (column_value col) rows
      in sort_key (\<lambda>(v, n). - int n) (map (\<lambda>v. (v, count_list vs v)) (remdups vs)))"

definition query_group ::
  "('n, 'd) engine \<Rightarrow> ('n, 'd) database \<Rightarrow> label \<Rightarrow> string \<Rightarrow> error + (('n, 'd) cell \<times> nat) list" where
  "query_group eng db col tname =
     (if rejects eng (group_sql col tname) then Inl (DatabaseError (group_sql col tname))
      else (case map_of (db_tables db) tname of
              None \<Rightarrow> Inl (DatabaseError (group_sql col tname))
            | Some rows \<Rightarrow> Inr (group_count col rows)))"

section \<open>Schema provisioning\<close>

definition check_sql :: string where
  "check_sql =
     [CHR 0x0A] @ replicate 24 CHR '' '' @ ''SELECT 1 FROM pg_indexes '' @
     [CHR 0x0A] @ replicate 24 CHR '' '' @ ''WHERE tablename = :table_name AND indexname = :index_name'' @
     [CHR 0x0A] @ replicate 20 CHR '' ''"

definition index_sql :: "string \<Rightarrow> index_spec \<Rightarrow> string" where
  "index_sql tname index =
     [CHR 0x0A] @ replicate 28 CHR '' '' @ ''CREATE '' @
       (if get_truthy (idx_unique index) then ''UNIQUE '' else []) @ ''INDEX '' @ idx_name index @ '' '' @
     [CHR 0x0A] @ replicate 28 CHR '' '' @ ''ON '' @ tname @ '' ('' @ join '', '' (idx_columns index) @ '')'' @
     [CHR 0x0A] @ replicate 24 CHR '' ''"

text \<open>
  The loop of \<^verbatim>\<open>_create_indexes\<close>, run on the connection's uncommitted view \<open>p\<close> of the
  database. The first statement that raises ends the loop.
\<close>

fun index_loop ::
  "('n, 'd) engine \<Rightarrow> string \<Rightarrow> index_spec list \<Rightarrow> ('n, 'd) database \<Rightarrow> event list
     \<Rightarrow> (error + ('n, 'd) database) \<times> event list" where
  "index_loop eng tname [] p log = (Inr p, log)"
| "index_loop eng tname (index # indexes) p log =
     (if rejects eng check_sql then (Inl (DatabaseError check_sql), log)
      else if (tname, idx_name index) \<notin> set (pg_indexes p)
      then (case exec_create_index eng p (index_sql tname index) tname (idx_name index) of
              Inl e \<Rightarrow> (Inl e, log)
            | Inr p' \<Rightarrow> index_loop eng tname indexes p' (log @ [IndexCreated (idx_name index)]))
      else index_loop eng tname indexes p (log @ [IndexExists (idx_name index)]))"

text \<open>
  \<^verbatim>\<open>_create_indexes\<close>: the commit is the last statement inside the \<^verbatim>\<open>with\<close> block, so an
  exception leaves the block without it and the connection rolls back; the handler logs.
\<close>

definition create_indexes :: "('n, 'd) loader \<Rightarrow> ('n, 'd) database \<Rightarrow> ('n, 'd) database \<times> event list" where
  "create_indexes ld db =
     (let tname = table_name (cfg_table_schema (ld_config ld));
          indexes = (case cfg_indexes (ld_config ld) of None \<Rightarrow> [] | Some xs \<Rightarrow> xs)
      in case ld_engine ld of
           None \<Rightarrow> (db, [FailedCreateIndexes AttributeError])
         | Some eng \<Rightarrow>
             if \<not> connects eng then (db, [FailedCreateIndexes OperationalError])
             else (case index_loop eng tname indexes db [] of
                     (Inl e, log) \<Rightarrow> (db, log @ [FailedCreateIndexes e])
                   | (Inr p, log) \<Rightarrow> (p, log)))"

definition create_table :: "('n, 'd) loader \<Rightarrow> ('n, 'd) database \<Rightarrow> bool \<times> event list \<times> ('n, 'd) database" where
  "create_table ld db =
     (let ts = cfg_table_schema (ld_config ld);
          tname = table_name ts;
          sql = create_sql ts
      in case ld_engine ld of
           None \<Rightarrow> (False, [FailedCreateTable AttributeError], db)
         | Some eng \<Rightarrow>
             if \<not> connects eng then (False, [FailedCreateTable OperationalError], db)
             else (case exec_create_table eng db sql tname of
                     Inl e \<Rightarrow> (False, [FailedCreateTable e], db)
                   | Inr db1 \<Rightarrow>
                       (let (db2, log) = create_indexes ld db1
                        in (True, TableCreated tname # log, db2))))"

section \<open>Batch loading\<close>

text \<open>
  The rows that \<^verbatim>\<open>to_sql\<close> sends for a frame: one row for each index position, a missing
  value written as NULL. Every column of a frame is as long as its index.
\<close>

definition sql_value :: "('n, 'd) cell \<Rightarrow> ('n, 'd) cell" where
  "sql_value c = (if is_null c then PyNone else c)"

definition records :: "('n, 'd) frame \<Rightarrow> ('n, 'd) row list" where
  "records f = map (\<lambda>i. map (\<lambda>(l, c). (l, sql_value (c ! i))) (columns f)) [0..<nrows f]"

text \<open>Python's \<^verbatim>\<open>xs[start:stop]\<close>.\<close>

definition slice_index :: "int \<Rightarrow> nat \<Rightarrow> nat" where
  "slice_index i n = (if i < 0 then nat (max (i + int n) 0) else min (nat i) n)"

definition slice :: "'a list \<Rightarrow> int \<Rightarrow> int \<Rightarrow> 'a list" where
  "slice xs start stop =
     (let s = slice_index start (length xs); e = slice_index stop (length xs)
      in take (e - s) (drop s xs))"

text \<open>
  The loop of pandas' \<^verbatim>\<open>SQLTable.insert\<close> over \<^verbatim>\<open>range(chunks)\<close>: one multi-row
  \<^verbatim>\<open>INSERT\<close> for each slice of \<^verbatim>\<open>chunksize\<close> rows, the batches sent so far in \<open>sent\<close>.
\<close>

fun insert_loop ::
  "('n, 'd) engine \<Rightarrow> string \<Rightarrow> ('n, 'd) row list \<Rightarrow> int \<Rightarrow> nat list \<Rightarrow> ('n, 'd) database
     \<Rightarrow> ('n, 'd) row list list \<Rightarrow> error + (('n, 'd) row list list \<times> ('n, 'd) database)" where
  "insert_loop eng name rows chunksize [] p sent = Inr (sent, p)"
| "insert_loop eng name rows chunksize (i # rest) p sent =
     (let start_i = int i * chunksize;
          end_i = min ((int i + 1) * chunksize) (int (length rows))
      in if start_i \<ge> end_i then Inr (sent, p)
         else (case exec_insert eng p name (slice rows start_i end_i) of
                 Inl e \<Rightarrow> Inl e
               | Inr p' \<Rightarrow> insert_loop eng name rows chunksize rest p' (sent @ [slice rows start_i end_i])))"

text \<open>With \<^verbatim>\<open>if_exists='append'\<close> pandas creates the table only when there is none.\<close>

definition ensure_table :: "('n, 'd) engine \<Rightarrow> ('n, 'd) database \<Rightarrow> string \<Rightarrow> error + ('n, 'd) database" where
  "ensure_table eng db name =
     (if name \<in> set (map fst (db_tables db)) then Inr db
      else if rejects_create eng name then Inl (DatabaseError name)
      else if name \<in> set (relation_names db) then Inl (DuplicateObject name)
      else Inr (db\<lparr>db_tables := db_tables db @ [(name, [])]\<rparr>))"

text \<open>
  \<^verbatim>\<open>df.to_sql(name, con, if_exists='append', index=False, chunksize=..., method='multi')\<close>
  for a frame with at least one column. pandas runs the call in one transaction: an
  exception leaves the database as it was. The value is the list of the batches sent.
\<close>

definition to_sql ::
  "('n, 'd) engine option \<Rightarrow> ('n, 'd) database \<Rightarrow> string \<Rightarrow> ('n, 'd) frame \<Rightarrow> int
     \<Rightarrow> (error + ('n, 'd) row list list) \<times> ('n, 'd) database" where
  "to_sql con db name f chunksize =
     (case con of
        None \<Rightarrow> (Inl AttributeError, db)
      | Some eng \<Rightarrow>
          if \<not> connects eng then (Inl OperationalError, db)
          else (case ensure_table eng db name of
                  Inl e \<Rightarrow> (Inl e, db)
                | Inr p \<Rightarrow>
                    if nrows f = 0 then (Inr [], p)
                    else if chunksize = 0 then (Inl ValueError, db)
                    else (case insert_loop eng name (records f) chunksize
                                 [0..<nat (int (nrows f) div chunksize + 1)] p [] of
                            Inl e \<Rightarrow> (Inl e, db)
                          | Inr (sent, p') \<Rightarrow> (Inr sent, p'))))"

definition verify_data_load :: "('n, 'd) loader \<Rightarrow> ('n, 'd) database \<Rightarrow> string \<Rightarrow> nat \<Rightarrow> event list" where
  "verify_data_load ld db tname expected_count =
     (case ld_engine ld of
        None \<Rightarrow> [FailedVerify AttributeError]
      | Some eng \<Rightarrow>
          if \<not> connects eng then [FailedVerify OperationalError]
          else (case query_count eng db tname of
                  Inl e \<Rightarrow> [FailedVerify e]
                | Inr actual_count \<Rightarrow>
                    Verification actual_count #
                    (if actual_count \<ge> expected_count then [VerificationSuccessful]
                     else [VerificationWarning expected_count actual_count])))"

text \<open>
  \<^verbatim>\<open>load_csv_data\<close>. The file system is a function on paths: \<open>None\<close> when the file does
  not exist, otherwise what \<^verbatim>\<open>pd.read_csv\<close> does with it, an exception or a frame.
\<close>

definition load_csv_data ::
  "('n, 'd) loader \<Rightarrow> ('n, 'd) pandas \<Rightarrow> (string \<Rightarrow> (error + ('n, 'd) frame) option) \<Rightarrow> 'd clock
     \<Rightarrow> ('n, 'd) database \<Rightarrow> string \<Rightarrow> int \<Rightarrow> bool \<times> event list \<times> 'd clock \<times> ('n, 'd) database" where
  "load_csv_data ld pd fs clk db csv_path batch_size =
     (case fs csv_path of
        None \<Rightarrow> (False, [CsvNotFound csv_path], clk, db)
      | Some (Inl e) \<Rightarrow> (False, [ReadingCsv csv_path, FailedLoad e], clk, db)
      | Some (Inr df) \<Rightarrow>
          (let log = [ReadingCsv csv_path, LoadedFromCsv (nrows df)]
           in case prepare_data_for_db pd clk [df] 0 of
                (Inl e, clk, h) \<Rightarrow> (False, log @ [FailedLoad e], clk, db)
              | (Inr df_prepared, clk, h) \<Rightarrow>
                  (let tname = table_name (cfg_table_schema (ld_config ld));
                       total_records = nrows (h ! df_prepared);
                       log = log @ [LoadingRecords total_records tname]
                   in case to_sql (ld_engine ld) db tname (h ! df_prepared) batch_size of
                        (Inl e, db) \<Rightarrow> (False, log @ [FailedLoad e], clk, db)
                      | (Inr sent, db) \<Rightarrow>
                          (True,
                           log @ [SuccessfullyLoaded total_records]
                               @ verify_data_load ld db tname total_records,
                           clk, db))))"

text \<open>The database with a batch of rows added to a table, and the size of the last batch.\<close>

definition with_rows :: "string \<Rightarrow> ('n, 'd) row list \<Rightarrow> ('n, 'd) database \<Rightarrow> ('n, 'd) database" where
  "with_rows name batch db =
     db\<lparr>db_tables := map (\<lambda>(n, rs). if n = name then (n, rs @ batch) else (n, rs)) (db_tables db)\<rparr>"

section \<open>Statistics\<close>

text \<open>The dictionary that \<^verbatim>\<open>get_table_stats\<close> returns: empty, or with its three entries.\<close>

datatype ('n, 'd) stats =
    EmptyDict
  | StatsDict (total_records: nat)
              (records_by_sheet: "(('n, 'd) cell \<times> nat) list")
              (records_by_status: "(('n, 'd) cell \<times> nat) list")

text \<open>The body of the \<^verbatim>\<open>try\<close> block: the first query that raises ends it.\<close>

definition stats_queries :: "('n, 'd) loader \<Rightarrow> ('n, 'd) database \<Rightarrow> error + ('n, 'd) stats" where
  "stats_queries ld db =
     (let tname = table_name (cfg_table_schema (ld_config ld))
      in case ld_engine ld of
           None \<Rightarrow> Inl AttributeError
         | Some eng \<Rightarrow>
             if \<not> connects eng then Inl OperationalError
             else (case query_count eng db tname of
                     Inl e \<Rightarrow> Inl e
                   | Inr total_count \<Rightarrow>
               (case query_group eng db ''source_sheet'' tname of
                     Inl e \<Rightarrow> Inl e
                   | Inr sheet_counts \<Rightarrow>
               (case query_group eng db ''status'' tname of
                     Inl e \<Rightarrow> Inl e
                   | Inr status_counts \<Rightarrow> Inr (StatsDict total_count sheet_counts status_counts)))))"

definition get_table_stats :: "('n, 'd) loader \<Rightarrow> ('n, 'd) database \<Rightarrow> ('n, 'd) stats \<times> event list" where
  "get_table_stats ld db =
     (case stats_queries ld db of
        Inl e \<Rightarrow> (EmptyDict, [FailedStats e])
      | Inr s \<Rightarrow> (s, []))"

section \<open>Sample inputs\<close>

text \<open>
  A pandas whose numeric parser reads the text \<^verbatim>\<open>7\<close> as the number seven and nothing else, and
  whose date parser reads nothing; a clock that advances by one between two readings; the
  frame of the one source row \<^verbatim>\<open>{"S.no": "7", "Status": "nan", "Farmer Code": "  FC9  "}\<close>.
\<close>

definition sample_pandas :: "(int, int) pandas" where
  "sample_pandas =
     \<lparr>parse_datetime = (\<lambda>col i. None),
      parse_numeric = (\<lambda>col i. if col ! i = Str ''7'' then Some 7 else None),
      str_of_num = str_int,
      str_of_date = str_int\<rparr>"

definition sample_clock :: "int clock" where
  "sample_clock = (\<lambda>n. 1000 + int n)"

definition sample_frame :: "('n, 'd) frame" where
  "sample_frame =
     \<lparr>nrows = 1,
      columns = [(''S.no'', [Str ''7'']), (''Status'', [Str ''nan'']), (''Farmer Code'', [Str ''  FC9  ''])]\<rparr>"


definition clashing_frame :: "('n, 'd) frame" where
  "clashing_frame = \<lparr>nrows = 1, columns = [(''Area'', [Str ''1'']), (''area'', [Str ''2''])]\<rparr>"

text \<open>A frame with a date that cannot be read, an empty date and a number that cannot be read.\<close>

definition unparsable_frame :: "('n, 'd) frame" where
  "unparsable_frame =
     \<lparr>nrows = 2,
      columns = [(''Sync Date'', [Str ''soon'', NaN]), (''Area'', [Str ''7'', Str ''x''])]\<rparr>"

text \<open>
  A configuration with three indexes, an engine that accepts every statement, an engine
  that refuses the statement for the second index, and the empty database.
\<close>

definition text_column :: column_spec where
  "text_column = \<lparr>col_type = ''TEXT'', col_nullable = None, col_unique = None,
                   col_primary_key = None, col_default = None\<rparr>"

definition idx_status :: index_spec where
  "idx_status = \<lparr>idx_name = ''idx_status'', idx_columns = [''status''], idx_unique = None\<rparr>"

definition idx_code :: index_spec where
  "idx_code = \<lparr>idx_name = ''idx_code'', idx_columns = [''farmer_code''], idx_unique = Some (YBool True)\<rparr>"

definition idx_sheet :: index_spec where
  "idx_sheet = \<lparr>idx_name = ''idx_sheet'', idx_columns = [''source_sheet''], idx_unique = None\<rparr>"

definition sample_indexes :: "index_spec list" where
  "sample_indexes = [idx_status, idx_code, idx_sheet]"

definition sample_config :: config where
  "sample_config =
     \<lparr>cfg_table_schema =
        \<lparr>table_name = ''bellary_farmers'',
         schema_columns = [(''status'', text_column), (''farmer_code'', text_column),
                           (''source_sheet'', text_column)]\<rparr>,
      cfg_indexes = Some sample_indexes\<rparr>"

definition accepting_engine :: "('n, 'd) engine" where
  "accepting_engine =
     \<lparr>connects = True, rejects = (\<lambda>sql. False), rejects_create = (\<lambda>name. False),
      rejects_insert = (\<lambda>name batch. False)\<rparr>"

definition refusing_engine :: "('n, 'd) engine" where
  "refusing_engine =
     \<lparr>connects = True,
      rejects = (\<lambda>sql. sql = index_sql ''bellary_farmers'' idx_code),
      rejects_create = (\<lambda>name. False),
      rejects_insert = (\<lambda>name batch. False)\<rparr>"

definition empty_database :: "('n, 'd) database" where
  "empty_database = \<lparr>db_tables = [], pg_indexes = []\<rparr>"

definition sample_loader :: "('n, 'd) loader" where
  "sample_loader = \<lparr>ld_config = sample_config, ld_engine = Some accepting_engine\<rparr>"

text \<open>A database in which the table holds two rows.\<close>

definition loaded_rows :: "('n, 'd) row list" where
  "loaded_rows =
     [[(''status'', Str ''Active''), (''source_sheet'', Str ''Sheet1'')],
      [(''status'', PyNone), (''source_sheet'', Str ''Sheet1'')]]"

definition loaded_database :: "('n, 'd) database" where
  "loaded_database = \<lparr>db_tables = [(''bellary_farmers'', loaded_rows)], pg_indexes = []\<rparr>"

definition refused_loader :: "('n, 'd) loader" where
  "refused_loader = \<lparr>ld_config = sample_config, ld_engine = Some refusing_engine\<rparr>"

text \<open>A frame of 2500 rows, and a file system with one file that holds it.\<close>

definition big_frame :: "('n, 'd) frame" where
  "big_frame = \<lparr>nrows = 2500, columns = [(''S.no'', replicate 2500 (Str ''7''))]\<rparr>"

definition sample_fs :: "string \<Rightarrow> (error + ('n, 'd) frame) option" where
  "sample_fs path = (if path = ''farmers.csv'' then Some (Inr big_frame) else None)"

section \<open>Properties of record preparation\<close>

lemma convert_column_frame:
  "convert_column conv col a h = (eo, h') \<Longrightarrow> length h' = length h \<and> (\<forall>b. b \<noteq> a \<longrightarrow> h' ! b = h ! b)"
  by (auto simp: convert_column_def df_setitem_def split: if_splits sum.splits)

lemma for_columns_frame:
  "for_columns conv cols a h = (eo, h') \<Longrightarrow> length h' = length h \<and> (\<forall>b. b \<noteq> a \<longrightarrow> h' ! b = h ! b)"
proof (induction cols arbitrary: h)
  case Nil
  then show ?case by simp
next
  case (Cons col cols)
  obtain r h1 where s: "convert_column conv col a h = (r, h1)" by (cases "convert_column conv col a h")
  from convert_column_frame[OF s] have f1: "length h1 = length h" "\<forall>b. b \<noteq> a \<longrightarrow> h1 ! b = h ! b" by auto
  show ?case
  proof (cases r)
    case None
    with Cons.prems s have "for_columns conv cols a h1 = (eo, h')" by simp
    from Cons.IH[OF this] f1 show ?thesis by simp
  next
    case (Some e)
    with Cons.prems s have "h' = h1" by simp
    with f1 show ?thesis by simp
  qed
qed

lemma filter_single: "filter P xs = [x] \<Longrightarrow> y \<in> set xs \<Longrightarrow> P y \<Longrightarrow> y = x"
proof -
  assume a: "filter P xs = [x]" "y \<in> set xs" "P y"
  from a(1) have "set (filter P xs) = {x}" by (simp only: list.set)
  then have "{z \<in> set xs. P z} = {x}" by simp
  with a(2,3) show ?thesis by blast
qed

lemma map_replace_absent:
  "col \<notin> fst ` set cs \<Longrightarrow> map (\<lambda>(l, c). if l = col then (l, g c) else (l, c)) cs = cs"
  by (induction cs) auto

lemma convert_column_ok:
  assumes series: "\<And>c. conv (Series c) = Inr (g c)"
    and a: "a < length h"
    and once: "length (filter (\<lambda>(l, c). l = col) (columns (h ! a))) \<le> 1"
  shows "convert_column conv col a h =
           (None, h[a := (h ! a)\<lparr>columns := map (\<lambda>(l, c). if l = col then (l, g c) else (l, c)) (columns (h ! a))\<rparr>])"
proof (cases "col \<in> set (labels (h ! a))")
  case False
  then have "map (\<lambda>(l, c). if l = col then (l, g c) else (l, c)) (columns (h ! a)) = columns (h ! a)"
    by (intro map_replace_absent) (simp add: labels_def)
  with False show ?thesis by (simp add: convert_column_def)
next
  case True
  then obtain c0 where "(col, c0) \<in> set (columns (h ! a))" by (auto simp: labels_def)
  then have ne: "filter (\<lambda>(l, c). l = col) (columns (h ! a)) \<noteq> []"
    by (auto simp: filter_empty_conv)
  with once obtain x where fx: "filter (\<lambda>(l, c). l = col) (columns (h ! a)) = [x]"
    by (cases "filter (\<lambda>(l, c). l = col) (columns (h ! a))") auto
  then have "x \<in> set (filter (\<lambda>(l, c). l = col) (columns (h ! a)))" by simp
  then obtain c1 where x: "x = (col, c1)" by auto
  have same: "\<And>l c. (l, c) \<in> set (columns (h ! a)) \<Longrightarrow> l = col \<Longrightarrow> c = c1"
    using filter_single[OF fx] x by fastforce
  have "map (\<lambda>(l, c). if l = col then (l, g c1) else (l, c)) (columns (h ! a))
      = map (\<lambda>(l, c). if l = col then (l, g c) else (l, c)) (columns (h ! a))"
    using same by (intro map_cong) auto
  moreover from True fx x series have "convert_column conv col a h =
     (None, h[a := (h ! a)\<lparr>columns := map (\<lambda>(l, c). if l = col then (l, g c1) else (l, c)) (columns (h ! a))\<rparr>])"
    by (simp add: convert_column_def getitem_def df_setitem_def setitem_def)
  ultimately show ?thesis by (simp only:)
qed

lemma convert_column_fail:
  assumes sub: "\<And>cs. conv (SubFrame cs) = Inl e0"
    and many: "\<not> length (filter (\<lambda>(l, c). l = col) (columns (h ! a))) \<le> 1"
  shows "convert_column conv col a h = (Some e0, h)"
proof -
  have two: "\<And>xs :: (label \<times> ('a, 'b) cell list) list. \<not> length xs \<le> 1 \<Longrightarrow> \<exists>x y zs. xs = x # y # zs"
  proof -
    fix xs :: "(label \<times> ('a, 'b) cell list) list"
    assume "\<not> length xs \<le> 1"
    then show "\<exists>x y zs. xs = x # y # zs"
      by (cases xs; cases "tl xs") auto
  qed
  from two[OF many] obtain x y zs where f: "filter (\<lambda>(l, c). l = col) (columns (h ! a)) = x # y # zs"
    by blast
  then have "x \<in> set (filter (\<lambda>(l, c). l = col) (columns (h ! a)))" by simp
  then have "col \<in> set (labels (h ! a))" by (force simp: labels_def)
  with f sub show ?thesis by (simp add: convert_column_def getitem_def)
qed


lemma occurs_map:
  "length (filter (\<lambda>(l, c). l = col) (map (\<lambda>(l, c). (l, k l c)) cs)) = length (filter (\<lambda>(l, c). l = col) cs)"
  by (induction cs) auto

lemma occurs_replace_list:
  "length (filter (\<lambda>(l, c). l = col) (map (\<lambda>(l, c). if P l then (l, g c) else (l, c)) cs))
     = length (filter (\<lambda>(l, c). l = col) cs)"
  by (induction cs) (auto split: if_splits)

lemma occurs_replace:
  "occurs (f\<lparr>columns := map (\<lambda>(l, c). if P l then (l, g c) else (l, c)) (columns f)\<rparr>) col = occurs f col"
  by (simp add: occurs_def occurs_replace_list del: filter_map length_filter_map)

lemma replace_replace:
  "col \<notin> set cols \<Longrightarrow>
   map (\<lambda>(l, c). if l \<in> set cols then (l, g c) else (l, c)) (map (\<lambda>(l, c). if l = col then (l, g c) else (l, c)) cs)
   = map (\<lambda>(l, c). if l \<in> set (col # cols) then (l, g c) else (l, c)) cs"
  by (induction cs) auto

lemma for_columns_ok:
  assumes series: "\<And>c. conv (Series c) = Inr (g c)"
  shows "a < length h \<Longrightarrow> distinct cols \<Longrightarrow> \<forall>col\<in>set cols. occurs (h ! a) col \<le> 1 \<Longrightarrow>
     for_columns conv cols a h =
       (None, h[a := (h ! a)\<lparr>columns := map (\<lambda>(l, c). if l \<in> set cols then (l, g c) else (l, c)) (columns (h ! a))\<rparr>])"
proof (induction cols arbitrary: h)
  case Nil
  have "map (\<lambda>(l, c). (l, c)) (columns (h ! a)) = columns (h ! a)" by (induction "columns (h ! a)") auto
  then show ?case by (simp add: case_prod_beta)
next
  case (Cons col cols)
  let ?f1 = "(h ! a)\<lparr>columns := map (\<lambda>(l, c). if l = col then (l, g c) else (l, c)) (columns (h ! a))\<rparr>"
  let ?h1 = "h[a := ?f1]"
  from Cons.prems have once: "length (filter (\<lambda>(l, c). l = col) (columns (h ! a))) \<le> 1"
    by (simp add: occurs_def)
  have step: "convert_column conv col a h = (None, ?h1)"
    using convert_column_ok[of conv g, OF series Cons.prems(1) once] .
  have h1a: "?h1 ! a = ?f1" using Cons.prems(1) by simp
  have occ: "\<forall>c\<in>set cols. occurs (?h1 ! a) c \<le> 1"
    using Cons.prems(3) by (simp only: h1a occurs_replace) simp
  have len: "a < length ?h1" using Cons.prems(1) by simp
  from Cons.prems(2) have d: "distinct cols" and notin: "col \<notin> set cols" by auto
  have "for_columns conv cols a ?h1 =
      (None, ?h1[a := (?h1 ! a)\<lparr>columns := map (\<lambda>(l, c). if l \<in> set cols then (l, g c) else (l, c)) (columns (?h1 ! a))\<rparr>])"
    using Cons.IH[OF len d occ] .
  also have "(?h1 ! a)\<lparr>columns := map (\<lambda>(l, c). if l \<in> set cols then (l, g c) else (l, c)) (columns (?h1 ! a))\<rparr>
     = (h ! a)\<lparr>columns := map (\<lambda>(l, c). if l \<in> set (col # cols) then (l, g c) else (l, c)) (columns (h ! a))\<rparr>"
    by (simp only: h1a) (simp add: replace_replace[OF notin] del: set_simps map_map)
  finally have "for_columns conv cols a ?h1 =
     (None, h[a := (h ! a)\<lparr>columns := map (\<lambda>(l, c). if l \<in> set (col # cols) then (l, g c) else (l, c)) (columns (h ! a))\<rparr>])"
    by simp
  with step show ?case by simp
qed

lemma for_columns_fail:
  assumes series: "\<And>c. conv (Series c) = Inr (g c)"
    and sub: "\<And>cs. conv (SubFrame cs) = Inl e0"
  shows "a < length h \<Longrightarrow> \<not> (\<forall>col\<in>set cols. occurs (h ! a) col \<le> 1) \<Longrightarrow>
     \<exists>h'. for_columns conv cols a h = (Some e0, h')"
proof (induction cols arbitrary: h)
  case Nil
  then show ?case by simp
next
  case (Cons col cols)
  show ?case
  proof (cases "occurs (h ! a) col \<le> 1")
    case False
    then have "\<not> length (filter (\<lambda>(l, c). l = col) (columns (h ! a))) \<le> 1" by (simp add: occurs_def)
    from convert_column_fail[of conv e0, OF sub this] show ?thesis by simp
  next
    case True
    let ?f1 = "(h ! a)\<lparr>columns := map (\<lambda>(l, c). if l = col then (l, g c) else (l, c)) (columns (h ! a))\<rparr>"
    let ?h1 = "h[a := ?f1]"
    from True have once: "length (filter (\<lambda>(l, c). l = col) (columns (h ! a))) \<le> 1"
      by (simp add: occurs_def)
    have step: "convert_column conv col a h = (None, ?h1)"
      using convert_column_ok[of conv g, OF series Cons.prems(1) once] .
    have h1a: "?h1 ! a = ?f1" using Cons.prems(1) by simp
    have "\<not> (\<forall>c\<in>set cols. occurs (?h1 ! a) c \<le> 1)"
      using Cons.prems(2) True by (simp only: h1a occurs_replace) auto
    moreover have "a < length ?h1" using Cons.prems(1) by simp
    ultimately obtain h' where "for_columns conv cols a ?h1 = (Some e0, h')"
      using Cons.IH by blast
    with step show ?thesis by simp
  qed
qed

lemma replace3:
  assumes "set A \<inter> set B = {}" "set A \<inter> set C = {}" "set B \<inter> set C = {}"
  shows "map (\<lambda>(l, c). if l \<in> set C then (l, g3 c) else (l, c))
          (map (\<lambda>(l, c). if l \<in> set B then (l, g2 c) else (l, c))
            (map (\<lambda>(l, c). if l \<in> set A then (l, g1 c) else (l, c)) cs))
       = map (\<lambda>(l, c). (l, if l \<in> set A then g1 c else if l \<in> set B then g2 c else if l \<in> set C then g3 c else c)) cs"
  using assms by (induction cs) auto

lemma typed_disjoint:
  "set date_columns \<inter> set numeric_columns = {}"
  "set date_columns \<inter> set string_columns = {}"
  "set numeric_columns \<inter> set string_columns = {}"
  by (simp_all add: date_columns_def numeric_columns_def string_columns_def)

lemma typed_distinct:
  "distinct date_columns" "distinct numeric_columns" "distinct string_columns"
  by (simp_all add: date_columns_def numeric_columns_def string_columns_def)


lemma conv_series:
  "to_datetime pd (Series c) = Inr ((\<lambda>c. map (datetime_cell pd c) (enumerate 0 c)) c)"
  "to_numeric pd (Series c) = Inr ((\<lambda>c. map (numeric_cell pd c) (enumerate 0 c)) c)"
  "clean_strings pd (Series c) = Inr (map (clean_cell pd) c)"
  by (simp_all add: to_datetime_def to_numeric_def clean_strings_def)

lemma conv_subframe:
  "to_datetime pd (SubFrame cs) = Inl ValueError"
  "to_numeric pd (SubFrame cs) = Inl TypeError"
  "clean_strings pd (SubFrame cs) = Inl AttributeError"
  by (simp_all add: to_datetime_def to_numeric_def clean_strings_def)

lemma unambiguous_parts:
  assumes "unambiguous f"
  shows "\<forall>col\<in>set date_columns. occurs (rename column_mapping f) col \<le> 1"
    and "\<forall>col\<in>set numeric_columns. occurs (rename column_mapping f) col \<le> 1"
    and "\<forall>col\<in>set string_columns. occurs (rename column_mapping f) col \<le> 1"
  using assms by (auto simp: unambiguous_def)

lemma prepare_ok:
  assumes a: "a < length h" and u: "unambiguous (h ! a)"
  shows "prepare_data_for_db pd clk h a =
           (Inr (Suc (length h)), (\<lambda>n. clk (Suc (Suc (Suc n)))), h @ [h ! a, prepared pd clk (h ! a)])"
proof -
  let ?R = "rename column_mapping (h ! a)"
  let ?q = "Suc (length h)"
  let ?H = "h @ [h ! a, ?R]"
  let ?g1 = "\<lambda>c. map (datetime_cell pd c) (enumerate 0 c)"
  let ?g2 = "\<lambda>c. map (numeric_cell pd c) (enumerate 0 c)"
  let ?g3 = "map (clean_cell pd)"
  let ?R1 = "?R\<lparr>columns := map (\<lambda>(l, c). if l \<in> set date_columns then (l, ?g1 c) else (l, c)) (columns ?R)\<rparr>"
  let ?R2 = "?R1\<lparr>columns := map (\<lambda>(l, c). if l \<in> set numeric_columns then (l, ?g2 c) else (l, c)) (columns ?R1)\<rparr>"
  let ?R3 = "?R2\<lparr>columns := map (\<lambda>(l, c). if l \<in> set string_columns then (l, ?g3 c) else (l, c)) (columns ?R2)\<rparr>"
  have q: "?q < length ?H" by simp
  have Hq: "?H ! ?q = ?R" by (simp add: nth_append)
  have alloc: "df_copy h a = (length h, h @ [h ! a])"
    "df_rename column_mapping (h @ [h ! a]) (length h) = (?q, ?H)"
    using a by (simp_all add: df_copy_def df_rename_def nth_append)
  note up = unambiguous_parts[OF u]
  have l1: "for_columns (to_datetime pd) date_columns ?q ?H = (None, ?H[?q := ?R1])"
    using for_columns_ok[of "to_datetime pd" ?g1 ?q ?H date_columns, OF conv_series(1) q typed_distinct(1)]
      up(1) by (simp only: Hq) 
  have q1: "?q < length (?H[?q := ?R1])" "(?H[?q := ?R1]) ! ?q = ?R1" by simp_all
  have o1: "\<forall>col\<in>set numeric_columns. occurs ?R1 col \<le> 1"
    using up(2) by (simp only: occurs_replace) 
  have l2: "for_columns (to_numeric pd) numeric_columns ?q (?H[?q := ?R1]) = (None, ?H[?q := ?R2])"
    using for_columns_ok[of "to_numeric pd" ?g2 ?q "?H[?q := ?R1]" numeric_columns, OF conv_series(2) q1(1) typed_distinct(2)]
      o1 by (simp only: q1(2) list_update_overwrite)
  have q2: "?q < length (?H[?q := ?R2])" "(?H[?q := ?R2]) ! ?q = ?R2" by simp_all
  have o2: "\<forall>col\<in>set string_columns. occurs ?R2 col \<le> 1"
    using up(3) by (simp only: occurs_replace)
  have l3: "for_columns (clean_strings pd) string_columns ?q (?H[?q := ?R2]) = (None, ?H[?q := ?R3])"
    using for_columns_ok[of "clean_strings pd" ?g3 ?q "?H[?q := ?R2]" string_columns, OF conv_series(3) q2(1) typed_distinct(3)]
      o2 by (simp only: q2(2) list_update_overwrite)
  have R3: "?R3 = ?R\<lparr>columns := map (\<lambda>(l, c). (l, convert pd l c)) (columns ?R)\<rparr>"
  proof -
    have "columns ?R3 = map (\<lambda>(l, c). (l, convert pd l c)) (columns ?R)"
      using replace3[OF typed_disjoint, of ?g3 ?g2 ?g1 "columns ?R"]
      by (simp add: convert_def del: map_map)
    then show ?thesis by simp
  qed
  have upd: "\<And>f. ?H[?q := f] = h @ [h ! a, f]" by (simp add: list_update_append)
  have nthq: "\<And>f. (h @ [h ! a, f]) ! ?q = f" by (simp add: nth_append)
  have updq: "\<And>f f'. (h @ [h ! a, f])[?q := f'] = h @ [h ! a, f']" by (simp add: list_update_append)
  note l1' = l1[unfolded upd] and l2' = l2[unfolded upd] and l3' = l3[unfolded upd R3]
  have "prepare_data_for_db pd clk h a =
     (Inr ?q, (\<lambda>n. clk (Suc (Suc (Suc n)))),
      h @ [h ! a, setitem_scalar (setitem_scalar (setitem_scalar
             (?R\<lparr>columns := map (\<lambda>(l, c). (l, convert pd l c)) (columns ?R)\<rparr>)
             ''imported_at'' (Date (clk 0))) ''created_at'' (Date (clk (Suc 0)))) ''updated_at'' (Date (clk (Suc (Suc 0))))])"
    unfolding prepare_data_for_db_def
    by (simp only: alloc Let_def split_conv l1' l2' l3' option.case prod.case now_def
          df_setitem_scalar_def nthq updq)
  then show ?thesis by (simp add: prepared_def converted_def Let_def numeral_2_eq_2)
qed

lemma prepare_frame:
  assumes a: "a < length h" and p: "prepare_data_for_db pd clk h a = (r, clk', h')"
  shows "length h' = length h + 2 \<and> (\<forall>b < length h. h' ! b = h ! b) \<and> h' ! length h = h ! a
         \<and> (\<forall>q. r = Inr q \<longrightarrow> q = Suc (length h))"
proof -
  let ?q = "Suc (length h)"
  let ?H = "h @ [h ! a, rename column_mapping (h ! a)]"
  have alloc: "df_copy h a = (length h, h @ [h ! a])"
    "df_rename column_mapping (h @ [h ! a]) (length h) = (?q, ?H)"
    using a by (simp_all add: df_copy_def df_rename_def nth_append)
  have base: "length ?H = length h + 2" "\<forall>b < length h. ?H ! b = h ! b" "?H ! length h = h ! a"
    by (simp_all add: nth_append)
  obtain e1 h1 where s1: "for_columns (to_datetime pd) date_columns ?q ?H = (e1, h1)"
    by (cases "for_columns (to_datetime pd) date_columns ?q ?H")
  obtain e2 h2 where s2: "for_columns (to_numeric pd) numeric_columns ?q h1 = (e2, h2)"
    by (cases "for_columns (to_numeric pd) numeric_columns ?q h1")
  obtain e3 h3 where s3: "for_columns (clean_strings pd) string_columns ?q h2 = (e3, h3)"
    by (cases "for_columns (clean_strings pd) string_columns ?q h2")
  from for_columns_frame[OF s1] base
  have f1: "length h1 = length h + 2" "\<forall>b < length h. h1 ! b = h ! b" "h1 ! length h = h ! a"
    by simp_all
  from for_columns_frame[OF s2] f1
  have f2: "length h2 = length h + 2" "\<forall>b < length h. h2 ! b = h ! b" "h2 ! length h = h ! a"
    by simp_all
  from for_columns_frame[OF s3] f2
  have f3: "length h3 = length h + 2" "\<forall>b < length h. h3 ! b = h ! b" "h3 ! length h = h ! a"
    by simp_all
  from p have "(r, clk', h') =
      (case e1 of Some e \<Rightarrow> (Inl e, clk, h1) | None \<Rightarrow>
       (case e2 of Some e \<Rightarrow> (Inl e, clk, h2) | None \<Rightarrow>
        (case e3 of Some e \<Rightarrow> (Inl e, clk, h3) | None \<Rightarrow>
          (Inr ?q, (\<lambda>n. clk (Suc (Suc (Suc n)))),
           h3[?q := setitem_scalar (setitem_scalar (setitem_scalar (h3 ! ?q)
              ''imported_at'' (Date (clk 0))) ''created_at'' (Date (clk (Suc 0)))) ''updated_at'' (Date (clk (Suc (Suc 0))))]))))"
    unfolding prepare_data_for_db_def
    using f3(1) by (simp add: alloc Let_def s1 s2 s3 now_def df_setitem_scalar_def split: option.splits)
  then show ?thesis
    using f1 f2 f3 by (auto split: option.splits)
qed

lemma prepare_fail:
  assumes a: "a < length h" and u: "\<not> unambiguous (h ! a)"
  shows "\<exists>e h'. prepare_data_for_db pd clk h a = (Inl e, clk, h')"
proof -
  let ?R = "rename column_mapping (h ! a)"
  let ?q = "Suc (length h)"
  let ?H = "h @ [h ! a, ?R]"
  let ?g1 = "\<lambda>c. map (datetime_cell pd c) (enumerate 0 c)"
  let ?g2 = "\<lambda>c. map (numeric_cell pd c) (enumerate 0 c)"
  let ?g3 = "map (clean_cell pd)"
  let ?R1 = "?R\<lparr>columns := map (\<lambda>(l, c). if l \<in> set date_columns then (l, ?g1 c) else (l, c)) (columns ?R)\<rparr>"
  let ?R2 = "?R1\<lparr>columns := map (\<lambda>(l, c). if l \<in> set numeric_columns then (l, ?g2 c) else (l, c)) (columns ?R1)\<rparr>"
  have q: "?q < length ?H" by simp
  have Hq: "?H ! ?q = ?R" by (simp add: nth_append)
  have alloc: "df_copy h a = (length h, h @ [h ! a])"
    "df_rename column_mapping (h @ [h ! a]) (length h) = (?q, ?H)"
    using a by (simp_all add: df_copy_def df_rename_def nth_append)
  show ?thesis
  proof (cases "\<forall>col\<in>set date_columns. occurs ?R col \<le> 1")
    case False
    then have "\<not> (\<forall>col\<in>set date_columns. occurs (?H ! ?q) col \<le> 1)" by (simp only: Hq simp_thms)
    from for_columns_fail[of "to_datetime pd" ?g1 ValueError ?q ?H date_columns, OF conv_series(1) conv_subframe(1) q this]
    obtain h' where "for_columns (to_datetime pd) date_columns ?q ?H = (Some ValueError, h')" by blast
    then show ?thesis unfolding prepare_data_for_db_def by (simp add: alloc)
  next
    case d: True
    have l1: "for_columns (to_datetime pd) date_columns ?q ?H = (None, ?H[?q := ?R1])"
      using for_columns_ok[of "to_datetime pd" ?g1 ?q ?H date_columns, OF conv_series(1) q typed_distinct(1)]
        d by (simp only: Hq)
    have q1: "?q < length (?H[?q := ?R1])" "(?H[?q := ?R1]) ! ?q = ?R1" by simp_all
    show ?thesis
    proof (cases "\<forall>col\<in>set numeric_columns. occurs ?R col \<le> 1")
      case False
      then have "\<not> (\<forall>col\<in>set numeric_columns. occurs ((?H[?q := ?R1]) ! ?q) col \<le> 1)"
        by (simp only: q1(2) occurs_replace simp_thms)
      from for_columns_fail[of "to_numeric pd" ?g2 TypeError ?q "?H[?q := ?R1]" numeric_columns, OF conv_series(2) conv_subframe(2) q1(1) this]
      obtain h' where "for_columns (to_numeric pd) numeric_columns ?q (?H[?q := ?R1]) = (Some TypeError, h')" by blast
      then show ?thesis unfolding prepare_data_for_db_def by (simp add: alloc l1)
    next
      case n: True
      then have o1: "\<forall>col\<in>set numeric_columns. occurs ?R1 col \<le> 1"
        by (simp only: occurs_replace)
      have l2: "for_columns (to_numeric pd) numeric_columns ?q (?H[?q := ?R1]) = (None, ?H[?q := ?R2])"
        using for_columns_ok[of "to_numeric pd" ?g2 ?q "?H[?q := ?R1]" numeric_columns, OF conv_series(2) q1(1) typed_distinct(2)]
          o1 by (simp only: q1(2) list_update_overwrite)
      have q2: "?q < length (?H[?q := ?R2])" "(?H[?q := ?R2]) ! ?q = ?R2" by simp_all
      from u d n have "\<not> (\<forall>col\<in>set string_columns. occurs ?R col \<le> 1)"
        by (auto simp: unambiguous_def)
      then have "\<not> (\<forall>col\<in>set string_columns. occurs ((?H[?q := ?R2]) ! ?q) col \<le> 1)"
        by (simp only: q2(2) occurs_replace simp_thms)
      from for_columns_fail[of "clean_strings pd" ?g3 AttributeError ?q "?H[?q := ?R2]" string_columns, OF conv_series(3) conv_subframe(3) q2(1) this]
      obtain h' where "for_columns (clean_strings pd) string_columns ?q (?H[?q := ?R2]) = (Some AttributeError, h')" by blast
      then show ?thesis unfolding prepare_data_for_db_def by (simp add: alloc l1 l2)
    qed
  qed
qed

lemma prepare_result:
  assumes a: "a < length h" and p: "prepare_data_for_db pd clk h a = (Inr q, clk', h')"
  shows "unambiguous (h ! a)" and "q = Suc (length h)"
    and "h' ! q = prepared pd clk (h ! a)" and "clk' = (\<lambda>n. clk (Suc (Suc (Suc n))))"
proof -
  show u: "unambiguous (h ! a)"
  proof (rule ccontr)
    assume "\<not> unambiguous (h ! a)"
    from prepare_fail[OF a this, of pd clk] p show False by auto
  qed
  from prepare_ok[OF a u, of pd clk] p
  have *: "q = Suc (length h)" "clk' = (\<lambda>n. clk (Suc (Suc (Suc n))))"
    "h' = h @ [h ! a, prepared pd clk (h ! a)]" by simp_all
  show "q = Suc (length h)" "clk' = (\<lambda>n. clk (Suc (Suc (Suc n))))" by (rule *)+
  show "h' ! q = prepared pd clk (h ! a)" by (simp add: * nth_append)
qed

lemma columns_setitem_scalar:
  "set (columns (setitem_scalar f col v)) =
     {(l, c) \<in> set (columns f). l \<noteq> col} \<union> {(col, replicate (nrows f) v)}"
proof (cases "col \<in> set (labels f)")
  case True
  then obtain c0 where c0: "(col, c0) \<in> set (columns f)" by (auto simp: labels_def)
  let ?F = "\<lambda>(l, c). if l = col then (l, replicate (nrows f) v) else (l, c)"
  have "?F ` set (columns f)
      = {(l, c) \<in> set (columns f). l \<noteq> col} \<union> {(col, replicate (nrows f) v)}" (is "?L = ?R")
  proof
    show "?L \<subseteq> ?R" by (auto split: if_splits)
    show "?R \<subseteq> ?L"
    proof
      fix x assume "x \<in> ?R"
      then consider (old) l c where "x = (l, c)" "(l, c) \<in> set (columns f)" "l \<noteq> col"
        | (new) "x = (col, replicate (nrows f) v)" by auto
      then show "x \<in> ?L"
      proof cases
        case old
        from old(2) have "?F (l, c) \<in> ?L" by (rule imageI)
        with old(1,3) show ?thesis by simp
      next
        case new
        from c0 have "?F (col, c0) \<in> ?L" by (rule imageI)
        with new show ?thesis by simp
      qed
    qed
  qed
  with True show ?thesis by (simp add: setitem_scalar_def setitem_def)
next
  case False
  then have "\<And>c. (col, c) \<notin> set (columns f)" by (force simp: labels_def)
  with False show ?thesis by (auto simp: setitem_scalar_def setitem_def)
qed

lemma nrows_setitem_scalar: "nrows (setitem_scalar f col v) = nrows f"
  by (simp add: setitem_scalar_def setitem_def)



lemma nrows_converted: "nrows (converted pd f) = nrows f"
  by (simp add: converted_def rename_def)

lemma columns_converted:
  "columns (converted pd f) = map (\<lambda>(l, c). (target column_mapping l, convert pd (target column_mapping l) c)) (columns f)"
  by (simp add: converted_def rename_def case_prod_beta comp_def)

lemma prepared_alt:
  "prepared pd clk f =
     setitem_scalar (setitem_scalar (setitem_scalar (converted pd f)
       ''imported_at'' (Date (clk 0))) ''created_at'' (Date (clk 1))) ''updated_at'' (Date (clk 2))"
  by (simp add: prepared_def Let_def)


lemma columns_prepared:
  "set (columns (prepared pd clk f)) =
     {(l, c) \<in> set (columns (converted pd f)). l \<notin> {''imported_at'', ''created_at'', ''updated_at''}}
     \<union> {(''imported_at'', replicate (nrows f) (Date (clk 0))),
         (''created_at'', replicate (nrows f) (Date (clk 1))),
         (''updated_at'', replicate (nrows f) (Date (clk 2)))}"
  unfolding prepared_alt
  by (simp only: columns_setitem_scalar nrows_setitem_scalar nrows_converted) auto


lemma sample_unambiguous: "unambiguous sample_frame"
  by (simp add: unambiguous_def sample_frame_def occurs_def rename_def target_def column_mapping_def
        date_columns_def numeric_columns_def string_columns_def)

lemma strip_FC9: "strip ''  FC9  '' = ''FC9''" "strip ''nan'' = ''nan''" "strip ''7'' = ''7''"
  by (simp_all add: strip_def py_isspace_def)

lemma sample_prepared:
  "prepared sample_pandas sample_clock (sample_frame :: (int, int) frame) =
     \<lparr>nrows = 1,
      columns = [(''serial_number'', [Num 7]), (''status'', [PyNone]), (''farmer_code'', [Str ''FC9'']),
                 (''imported_at'', [Date 1000]), (''created_at'', [Date 1001]), (''updated_at'', [Date 1002])]\<rparr>"
  by (simp add: prepared_def converted_def Let_def sample_frame_def sample_pandas_def sample_clock_def
        rename_def target_def column_mapping_def convert_def date_columns_def numeric_columns_def
        string_columns_def numeric_cell_def clean_cell_def strip_FC9 setitem_scalar_def setitem_def labels_def
        enumerate_eq_zip)

lemma strip_spec:
  "\<exists>pre post. s = pre @ strip s @ post \<and> (\<forall>x\<in>set pre. py_isspace x) \<and> (\<forall>x\<in>set post. py_isspace x)
     \<and> (strip s \<noteq> [] \<longrightarrow> \<not> py_isspace (hd (strip s)) \<and> \<not> py_isspace (last (strip s)))"
proof -
  let ?P = py_isspace
  let ?t = "dropWhile ?P s"
  let ?u = "dropWhile ?P (rev ?t)"
  have s: "s = takeWhile ?P s @ ?t" by simp
  have "rev ?u @ rev (takeWhile ?P (rev ?t)) = rev (takeWhile ?P (rev ?t) @ ?u)"
    by (simp only: rev_append)
  also have "\<dots> = rev (rev ?t)" by (simp only: takeWhile_dropWhile_id)
  finally have t: "?t = strip s @ rev (takeWhile ?P (rev ?t))" by (simp add: strip_def)
  have pre: "\<forall>x\<in>set (takeWhile ?P s). ?P x" by (auto dest: set_takeWhileD)
  have post: "\<forall>x\<in>set (rev (takeWhile ?P (rev ?t))). ?P x" by (auto dest: set_takeWhileD)
  have ends: "strip s \<noteq> [] \<longrightarrow> \<not> ?P (hd (strip s)) \<and> \<not> ?P (last (strip s))"
  proof
    assume ne: "strip s \<noteq> []"
    then have u: "?u \<noteq> []" by (simp add: strip_def)
    have "last (strip s) = hd ?u" using u by (simp add: strip_def last_rev)
    moreover have "\<not> ?P (hd ?u)" using u by (rule hd_dropWhile)
    moreover have tne: "?t \<noteq> []"
    proof -
      from arg_cong[OF t, of length]
      have "length ?t = length (strip s) + length (rev (takeWhile ?P (rev ?t)))"
        by (simp only: length_append)
      with ne have "0 < length ?t" by simp
      then show ?thesis by (simp only: length_greater_0_conv simp_thms)
    qed
    moreover from tne have "\<not> ?P (hd ?t)" by (rule hd_dropWhile)
    moreover have "hd ?t = hd (strip s)"
    proof -
      from arg_cong[OF t, of hd] have "hd ?t = hd (strip s @ rev (takeWhile ?P (rev ?t)))" .
      also have "\<dots> = hd (strip s)" using ne by (rule hd_append2)
      finally show ?thesis .
    qed
    ultimately show "\<not> ?P (hd (strip s)) \<and> \<not> ?P (last (strip s))" by simp
  qed
  from s t have "s = takeWhile ?P s @ strip s @ rev (takeWhile ?P (rev ?t))" by simp
  with pre post ends show ?thesis by blast
qed

lemma converted_member:
  "(l, c) \<in> set (columns f) \<Longrightarrow>
   (target column_mapping l, convert pd (target column_mapping l) c) \<in> set (columns (converted pd f))"
  by (force simp: columns_converted)

lemma typed_not_stamp:
  "t \<in> set date_columns \<union> set numeric_columns \<union> set string_columns \<Longrightarrow>
   t \<notin> {''imported_at'', ''created_at'', ''updated_at''}"
  by (auto simp: date_columns_def numeric_columns_def string_columns_def)

lemma prepared_member:
  assumes "(l, c) \<in> set (columns f)"
    and "target column_mapping l \<in> set date_columns \<union> set numeric_columns \<union> set string_columns"
  shows "(target column_mapping l, convert pd (target column_mapping l) c) \<in> set (columns (prepared pd clk f))"
  using converted_member[OF assms(1), of pd] typed_not_stamp[OF assms(2)]
  by (simp only: columns_prepared) blast

lemma nth_datetime:
  "i < length c \<Longrightarrow> map (datetime_cell pd c) (enumerate 0 c) ! i =
     (if is_empty (c ! i) then NaT else case parse_datetime pd c i of Some d \<Rightarrow> Date d | None \<Rightarrow> NaT)"
  by (simp add: datetime_cell_def nth_enumerate_eq)

lemma nth_numeric:
  "i < length c \<Longrightarrow> map (numeric_cell pd c) (enumerate 0 c) ! i =
     (if is_empty (c ! i) then NaN else case parse_numeric pd c i of Some n \<Rightarrow> Num n | None \<Rightarrow> NaN)"
  by (simp add: numeric_cell_def nth_enumerate_eq)

lemma convert_cases:
  "t \<in> set date_columns \<Longrightarrow> convert pd t c = map (datetime_cell pd c) (enumerate 0 c)"
  "t \<in> set numeric_columns \<Longrightarrow> convert pd t c = map (numeric_cell pd c) (enumerate 0 c)"
  "t \<in> set string_columns \<Longrightarrow> convert pd t c = map (clean_cell pd) c"
  using typed_disjoint by (auto simp: convert_def)




lemma clashing_ambiguous: "\<not> unambiguous clashing_frame"
  by (simp add: unambiguous_def clashing_frame_def occurs_def rename_def target_def column_mapping_def
        date_columns_def numeric_columns_def string_columns_def)



lemma target_scenario:
  "target column_mapping ''Status'' = ''status''"
  "target column_mapping ''Farmer Code'' = ''farmer_code''"
  by (simp_all add: target_def column_mapping_def)



lemma nrows_prepared: "nrows (prepared pd clk f) = nrows f"
  by (simp add: prepared_def Let_def nrows_setitem_scalar nrows_converted)

lemma stamp_columns:
  "(''imported_at'', c) \<in> set (columns (prepared pd clk f)) \<longleftrightarrow> c = replicate (nrows f) (Date (clk 0))"
  "(''created_at'', c) \<in> set (columns (prepared pd clk f)) \<longleftrightarrow> c = replicate (nrows f) (Date (clk 1))"
  "(''updated_at'', c) \<in> set (columns (prepared pd clk f)) \<longleftrightarrow> c = replicate (nrows f) (Date (clk 2))"
  by (simp_all add: columns_prepared)

lemma sample_run:
  "prepare_data_for_db sample_pandas sample_clock [sample_frame] 0 =
     (Inr 2, (\<lambda>n. sample_clock (Suc (Suc (Suc n)))),
      [sample_frame, sample_frame, prepared sample_pandas sample_clock sample_frame])"
proof -
  have l: "(0::nat) < length [sample_frame :: (int, int) frame]" by simp
  have u: "unambiguous ([sample_frame :: (int, int) frame] ! 0)" by (simp add: sample_unambiguous)
  from prepare_ok[OF l u, of sample_pandas sample_clock] show ?thesis by simp
qed

lemma scenario_prepared:
  assumes "parse_numeric pd [Str ''7''] 0 = Some seven"
  shows "columns (prepared pd clk sample_frame) =
     [(''serial_number'', [Num seven]), (''status'', [PyNone]), (''farmer_code'', [Str ''FC9'']),
      (''imported_at'', [Date (clk 0)]), (''created_at'', [Date (clk 1)]), (''updated_at'', [Date (clk 2)])]"
  using assms
  by (simp add: prepared_def converted_def Let_def sample_frame_def
        rename_def target_def column_mapping_def convert_def date_columns_def numeric_columns_def
        string_columns_def numeric_cell_def clean_cell_def strip_FC9 setitem_scalar_def setitem_def labels_def
        enumerate_eq_zip)

lemma target_unparsable:
  "target column_mapping ''Sync Date'' = ''sync_date''"
  "target column_mapping ''Area'' = ''area''"
  by (simp_all add: target_def column_mapping_def)

lemma unparsable_unambiguous: "unambiguous unparsable_frame"
  by (simp add: unambiguous_def unparsable_frame_def occurs_def rename_def target_def column_mapping_def
        date_columns_def numeric_columns_def string_columns_def)

lemma result_heap_eq: "\<exists>a b. x = (k, a, b) \<and> Q b \<Longrightarrow> x = (k', a0, b0) \<Longrightarrow> Q b0"
  by auto

lemma unparsable_run:
  "prepare_data_for_db sample_pandas sample_clock [unparsable_frame] 0 =
     (Inr 2, (\<lambda>n. sample_clock (Suc (Suc (Suc n)))),
      [unparsable_frame, unparsable_frame, prepared sample_pandas sample_clock unparsable_frame])"
proof -
  have l: "(0::nat) < length [unparsable_frame :: (int, int) frame]" by simp
  have u: "unambiguous ([unparsable_frame :: (int, int) frame] ! 0)" by (simp add: unparsable_unambiguous)
  from prepare_ok[OF l u, of sample_pandas sample_clock] show ?thesis by simp
qed

lemma sample_table_name: "table_name (cfg_table_schema (ld_config sample_loader)) = ''bellary_farmers''"
  by (simp add: sample_loader_def sample_config_def)

lemma loaded_groups:
  "group_count ''source_sheet'' (loaded_rows :: ('a, 'b) row list) = [(Str ''Sheet1'', 2)]"
  "group_count ''status'' (loaded_rows :: ('a, 'b) row list) = [(Str ''Active'', 1), (PyNone, 1)]"
  by (simp_all add: group_count_def loaded_rows_def column_value_def)





section \<open>Properties of schema provisioning\<close>



lemma index_loop_append:
  "index_loop eng t (xs @ ys) p log =
     (case index_loop eng t xs p log of
        (Inl e, l) \<Rightarrow> (Inl e, l)
      | (Inr p', l) \<Rightarrow> index_loop eng t ys p' l)"
  by (induction xs arbitrary: p log) (auto split: sum.splits)



lemma exec_create_table_cases:
  "exec_create_table eng db sql t = Inl e \<Longrightarrow> rejects eng sql"
  "exec_create_table eng db sql t = Inr db1 \<Longrightarrow>
     \<not> rejects eng sql \<and> t \<in> set (relation_names db1) \<and> pg_indexes db1 = pg_indexes db
     \<and> (db1 = db \<or> db1 = db\<lparr>db_tables := db_tables db @ [(t, [])]\<rparr>)"
  by (auto simp: exec_create_table_def relation_names_def split: if_splits)


lemma create_table_unfold:
  assumes "ld_engine ld = Some eng" and "connects eng"
  shows "create_table ld db =
     (case exec_create_table eng db (create_sql (cfg_table_schema (ld_config ld)))
             (table_name (cfg_table_schema (ld_config ld))) of
        Inl e \<Rightarrow> (False, [FailedCreateTable e], db)
      | Inr dbT \<Rightarrow>
          (case index_loop eng (table_name (cfg_table_schema (ld_config ld)))
                  (case cfg_indexes (ld_config ld) of None \<Rightarrow> [] | Some xs \<Rightarrow> xs) dbT [] of
             (Inl e, ilog) \<Rightarrow>
               (True, TableCreated (table_name (cfg_table_schema (ld_config ld))) # ilog @ [FailedCreateIndexes e], dbT)
           | (Inr p, ilog) \<Rightarrow> (True, TableCreated (table_name (cfg_table_schema (ld_config ld))) # ilog, p)))"
  using assms
  by (simp add: create_table_def create_indexes_def Let_def split: sum.splits prod.splits)



lemma index_loop_first_fails:
  "index_loop eng t [i] p log = (Inl e, log') \<Longrightarrow> index_loop eng t (i # post) p log = (Inl e, log')"
  by (auto split: if_splits sum.splits)

lemma sample_sql_distinct:
  "create_sql (cfg_table_schema sample_config) \<noteq> index_sql ''bellary_farmers'' idx_code"
  "check_sql \<noteq> index_sql ''bellary_farmers'' idx_code"
  "index_sql ''bellary_farmers'' idx_status \<noteq> index_sql ''bellary_farmers'' idx_code"
  "index_sql ''bellary_farmers'' idx_sheet \<noteq> index_sql ''bellary_farmers'' idx_code"
  by (simp_all add: create_sql_def check_sql_def index_sql_def idx_status_def idx_code_def idx_sheet_def
        sample_config_def get_truthy_def eval_nat_numeral)

lemma refusing_engine_simps:
  "connects (refusing_engine :: ('a, 'b) engine)"
  "rejects (refusing_engine :: ('a, 'b) engine) sql \<longleftrightarrow> sql = index_sql ''bellary_farmers'' idx_code"
  by (simp_all add: refusing_engine_def)


lemma index_names:
  "idx_name idx_status = ''idx_status''" "idx_name idx_code = ''idx_code''" "idx_name idx_sheet = ''idx_sheet''"
  by (simp_all add: idx_status_def idx_code_def idx_sheet_def)

lemma sample_config_simps:
  "table_name (cfg_table_schema sample_config) = ''bellary_farmers''"
  "cfg_indexes sample_config = Some [idx_status, idx_code, idx_sheet]"
  by (simp_all add: sample_config_def sample_indexes_def)

lemma refused_table:
  "exec_create_table refusing_engine empty_database (create_sql (cfg_table_schema sample_config)) ''bellary_farmers''
     = Inr \<lparr>db_tables = [(''bellary_farmers'', [])], pg_indexes = []\<rparr>"
  by (simp add: exec_create_table_def refusing_engine_simps sample_sql_distinct empty_database_def
        relation_names_def)

lemma refused_first:
  "index_loop refusing_engine ''bellary_farmers'' [idx_status]
      \<lparr>db_tables = [(''bellary_farmers'', [])], pg_indexes = []\<rparr> []
     = (Inr \<lparr>db_tables = [(''bellary_farmers'', [])], pg_indexes = [(''bellary_farmers'', ''idx_status'')]\<rparr>,
        [IndexCreated ''idx_status''])"
  by (simp add: exec_create_index_def refusing_engine_simps sample_sql_distinct index_names relation_names_def)

lemma refused_second:
  "index_loop refusing_engine ''bellary_farmers'' [idx_code]
      \<lparr>db_tables = [(''bellary_farmers'', [])], pg_indexes = [(''bellary_farmers'', ''idx_status'')]\<rparr>
      [IndexCreated ''idx_status'']
     = (Inl (DatabaseError (index_sql ''bellary_farmers'' idx_code)), [IndexCreated ''idx_status''])"
  by (simp add: exec_create_index_def refusing_engine_simps sample_sql_distinct index_names relation_names_def)


section \<open>Properties of batch loading\<close>

lemma ceil_mult_ge:
  assumes "0 < B" shows "N \<le> ((N + B - 1) div B) * (B::nat)"
proof -
  have "((N + B - 1) div B) * B + (N + B - 1) mod B = N + B - 1" by (rule div_mult_mod_eq)
  moreover have "(N + B - 1) mod B < B" using assms by simp
  ultimately show ?thesis by arith
qed

lemma ceil_less:
  assumes "0 < B" and "i < (N + B - 1) div B" shows "i * B < (N::nat)"
proof -
  from assms(2) have "Suc i \<le> (N + B - 1) div B" by simp
  then have "Suc i * B \<le> ((N + B - 1) div B) * B" by (rule mult_le_mono1)
  also have "\<dots> \<le> N + B - 1" by simp
  finally have "i * B + B \<le> N + B - 1" by simp
  with assms(1) show ?thesis by arith
qed

lemma ceil_le_succ: "0 < B \<Longrightarrow> (N + B - 1) div B \<le> N div B + (1::nat)"
  by (metis add.commute diff_le_self div_add_self1 div_le_mono not_gr_zero)

lemma ceil_not_less:
  assumes "0 < B" shows "\<not> ((N + B - 1) div B) * B < (N::nat)"
  using ceil_mult_ge[OF assms, of N] by simp

lemma takeWhile_upt_ceil:
  assumes B: "0 < (B::nat)"
  shows "takeWhile (\<lambda>i. i * B < N) [0..<N div B + 1] = [0..<(N + B - 1) div B]"
proof -
  let ?M = "(N + B - 1) div B"
  from ceil_le_succ[OF B, of N] have le: "?M \<le> N div B + 1" .
  then obtain d where d: "N div B + 1 = ?M + d" by (metis le_Suc_ex)
  have "[0..<?M + d] = [0..<?M] @ [?M..<?M + d]" by (rule upt_add_eq_append) simp
  then have split: "[0..<N div B + 1] = [0..<?M] @ [?M..<N div B + 1]" by (simp only: d)
  have all: "\<And>i. i \<in> set [0..<?M] \<Longrightarrow> i * B < N" using ceil_less[OF B] by simp
  have rest: "takeWhile (\<lambda>i. i * B < N) [?M..<N div B + 1] = []"
  proof (cases "?M < N div B + 1")
    case True
    then have "[?M..<N div B + 1] = ?M # [Suc ?M..<N div B + 1]" by (rule upt_conv_Cons)
    with ceil_not_less[OF B, of N] show ?thesis by simp
  next
    case False
    then show ?thesis by simp
  qed
  have "takeWhile (\<lambda>i. i * B < N) ([0..<?M] @ [?M..<N div B + 1])
        = [0..<?M] @ takeWhile (\<lambda>i. i * B < N) [?M..<N div B + 1]"
    using all by (rule takeWhile_append2)
  with split rest show ?thesis by simp
qed

lemma concat_chunks_take:
  "concat (map (\<lambda>i. take B (drop (i * B) rows)) [0..<j]) = take (j * B) rows"
proof (induction j)
  case 0
  then show ?case by simp
next
  case (Suc j)
  have "take (Suc j * B) rows = take (j * B + B) rows" by (simp add: add.commute)
  also have "\<dots> = take (j * B) rows @ take B (drop (j * B) rows)" by (rule take_add)
  finally show ?case using Suc by simp
qed

lemma concat_chunks:
  assumes "0 < (B::nat)"
  shows "concat (map (\<lambda>i. take B (drop (i * B) rows)) [0..<(length rows + B - 1) div B]) = rows"
  using ceil_mult_ge[OF assms, of "length rows"] by (simp add: concat_chunks_take)

lemma slice_chunk:
  assumes "0 < (B::nat)" and "i * B < length rows"
  shows "slice rows (int i * int B) (min ((int i + 1) * int B) (int (length rows)))
           = take B (drop (i * B) rows)"
proof -
  have s: "slice_index (int i * int B) (length rows) = i * B"
    using assms(2) by (simp add: slice_index_def flip: of_nat_mult)
  have "(int i + 1) * int B = int (Suc i * B)" by (simp add: algebra_simps)
  then have "min ((int i + 1) * int B) (int (length rows)) = int (min (Suc i * B) (length rows))"
    by (simp only: of_nat_min)
  then have e: "slice_index (min ((int i + 1) * int B) (int (length rows))) (length rows)
                  = min (Suc i * B) (length rows)"
    by (simp add: slice_index_def)
  have "min (Suc i * B) (length rows) - i * B = min B (length (drop (i * B) rows))"
    by (simp add: min_def) arith
  then have "take (min (Suc i * B) (length rows) - i * B) (drop (i * B) rows)
               = take (min B (length (drop (i * B) rows))) (drop (i * B) rows)" by (simp only:)
  also have "\<dots> = take B (drop (i * B) rows)" by (simp add: min_def)
  finally show ?thesis by (simp only: slice_def Let_def s e)
qed

lemma exec_insert_ok:
  "\<not> rejects_insert eng name batch \<Longrightarrow> name \<in> set (map fst (db_tables p)) \<Longrightarrow>
   exec_insert eng p name batch = Inr (with_rows name batch p)"
  by (simp add: exec_insert_def with_rows_def)

lemma append_Nil_rows: "map (\<lambda>(n, rs). if n = name then (n, rs @ []) else (n, rs)) ts = ts"
  by (induction ts) auto

lemma with_rows_Nil: "with_rows name [] p = p"
  by (simp only: with_rows_def append_Nil_rows) simp

lemma with_rows_twice: "with_rows name b2 (with_rows name b1 p) = with_rows name (b1 @ b2) p"
  by (simp add: with_rows_def comp_def case_prod_beta)

lemma with_rows_names: "map fst (db_tables (with_rows name b p)) = map fst (db_tables p)"
  by (simp add: with_rows_def comp_def case_prod_beta)

lemma with_rows_indexes: "pg_indexes (with_rows name b p) = pg_indexes p"
  by (simp add: with_rows_def)

lemma map_of_with_rows_list:
  "map_of (map (\<lambda>(n, rs). if n = name then (n, rs @ b) else (n, rs)) ts) n' =
     (if n' = name then map_option (\<lambda>rs. rs @ b) (map_of ts n') else map_of ts n')"
  by (induction ts) auto

lemma map_of_with_rows:
  "map_of (db_tables (with_rows name b p)) n' =
     (if n' = name then map_option (\<lambda>rs. rs @ b) (map_of (db_tables p) n') else map_of (db_tables p) n')"
  by (simp add: with_rows_def map_of_with_rows_list)

lemma insert_loop_ok:
  assumes B: "0 < (B::nat)" and acc: "\<And>batch. \<not> rejects_insert eng name batch"
  shows "name \<in> set (map fst (db_tables p)) \<Longrightarrow>
     insert_loop eng name rows (int B) idxs p sent =
       Inr (sent @ map (\<lambda>i. take B (drop (i * B) rows)) (takeWhile (\<lambda>i. i * B < length rows) idxs),
            with_rows name (concat (map (\<lambda>i. take B (drop (i * B) rows))
                                     (takeWhile (\<lambda>i. i * B < length rows) idxs))) p)"
proof (induction idxs arbitrary: p sent)
  case Nil
  then show ?case by (simp add: with_rows_Nil)
next
  case (Cons i idxs)
  have cond: "(min ((int i + 1) * int B) (int (length rows)) \<le> int i * int B) \<longleftrightarrow> \<not> i * B < length rows"
  proof -
    have a: "\<not> (int i + 1) * int B \<le> int i * int B" using B by (simp add: distrib_right)
    have "int (length rows) \<le> int i * int B \<longleftrightarrow> length rows \<le> i * B"
      by (simp only: of_nat_mult[symmetric] of_nat_le_iff)
    with a show ?thesis by (simp only: min_le_iff_disj simp_thms not_less)
  qed
  have unf: "insert_loop eng name rows (int B) (i # idxs) p sent =
      (if \<not> i * B < length rows then Inr (sent, p)
       else (case exec_insert eng p name
                    (slice rows (int i * int B) (min ((int i + 1) * int B) (int (length rows)))) of
               Inl e \<Rightarrow> Inl e
             | Inr p' \<Rightarrow> insert_loop eng name rows (int B) idxs p'
                         (sent @ [slice rows (int i * int B) (min ((int i + 1) * int B) (int (length rows)))])))"
    by (simp only: insert_loop.simps Let_def cond)
  show ?case
  proof (cases "i * B < length rows")
    case False
    then show ?thesis by (simp add: unf with_rows_Nil del: insert_loop.simps)
  next
    case True
    let ?chunk = "take B (drop (i * B) rows)"
    from slice_chunk[OF B True]
    have sl: "slice rows (int i * int B) (min ((int i + 1) * int B) (int (length rows))) = ?chunk" .
    from exec_insert_ok[OF acc Cons.prems]
    have ins: "exec_insert eng p name ?chunk = Inr (with_rows name ?chunk p)" .
    have names: "name \<in> set (map fst (db_tables (with_rows name ?chunk p)))"
      using Cons.prems by (simp only: with_rows_names)
    have "insert_loop eng name rows (int B) (i # idxs) p sent =
            insert_loop eng name rows (int B) idxs (with_rows name ?chunk p) (sent @ [?chunk])"
      using True by (simp only: unf sl ins) simp
    with Cons.IH[OF names, of "sent @ [?chunk]"] True
    show ?thesis by (simp add: with_rows_twice del: insert_loop.simps)
  qed
qed

lemma length_records: "length (records f) = nrows f"
  by (simp add: records_def)

lemma to_sql_ok:
  assumes B: "0 < (B::nat)" and c: "connects eng"
    and acc: "\<And>batch. \<not> rejects_insert eng name batch"
    and t: "name \<in> set (map fst (db_tables db))"
  shows "to_sql (Some eng) db name f (int B) =
           (Inr (map (\<lambda>i. take B (drop (i * B) (records f))) [0..<(nrows f + B - 1) div B]),
            with_rows name (records f) db)"
proof (cases "nrows f = 0")
  case True
  then have "records f = []" by (simp add: records_def)
  moreover from True B have "(nrows f + B - 1) div B = 0" by simp
  ultimately show ?thesis using True c t by (simp add: to_sql_def ensure_table_def with_rows_Nil)
next
  case False
  have r: "nat (int (nrows f) div int B + 1) = nrows f div B + 1"
    by (simp add: nat_add_distrib zdiv_int[symmetric] del: of_nat_div)
  have cc: "concat (map (\<lambda>i. take B (drop (i * B) (records f))) [0..<(nrows f + B - 1) div B]) = records f"
    using concat_chunks[OF B, of "records f"] by (simp only: length_records)
  from insert_loop_ok[OF B acc t, of "records f" "[0..<nrows f div B + 1]" "[]"]
  have "insert_loop eng name (records f) (int B) [0..<nrows f div B + 1] db [] =
       Inr (map (\<lambda>i. take B (drop (i * B) (records f))) [0..<(nrows f + B - 1) div B],
            with_rows name (records f) db)"
    by (simp only: length_records takeWhile_upt_ceil[OF B] cc append_Nil)
  with False B c t show ?thesis by (simp add: to_sql_def ensure_table_def r del: upt_Suc)
qed

lemma chunk_sizes:
  assumes B: "0 < (B::nat)"
  shows "\<forall>b\<in>set (map (\<lambda>i. take B (drop (i * B) rows)) [0..<(length rows + B - 1) div B]).
           0 < length b \<and> length b \<le> B"
proof
  fix b assume "b \<in> set (map (\<lambda>i. take B (drop (i * B) rows)) [0..<(length rows + B - 1) div B])"
  then obtain i where i: "i < (length rows + B - 1) div B" and b: "b = take B (drop (i * B) rows)"
    by auto
  from ceil_less[OF B i] have "i * B < length rows" .
  with B show "0 < length b \<and> length b \<le> B" by (simp add: b)
qed

lemma chunk_sizes_2500:
  assumes "length rows = 2500"
  shows "map length (map (\<lambda>i. take 1000 (drop (i * 1000) rows)) [0..<(2500 + 1000 - 1) div 1000])
           = [1000, 1000, 500]"
proof -
  have "(2500 + 1000 - 1) div 1000 = (3::nat)" by simp
  moreover have "[0..<3] = [0, 1, 2::nat]" by (simp add: upt_rec)
  ultimately show ?thesis using assms by simp
qed

lemma load_unfold:
  assumes csv: "fs csv_path = Some (Inr df)" and u: "unambiguous df"
    and sql: "to_sql (ld_engine ld) db (table_name (cfg_table_schema (ld_config ld)))
                (prepared pd clk df) batch_size = (Inr sent, db')"
  shows "load_csv_data ld pd fs clk db csv_path batch_size =
     (True,
      [ReadingCsv csv_path, LoadedFromCsv (nrows df),
       LoadingRecords (nrows df) (table_name (cfg_table_schema (ld_config ld))),
       SuccessfullyLoaded (nrows df)]
        @ verify_data_load ld db' (table_name (cfg_table_schema (ld_config ld))) (nrows df),
      (\<lambda>n. clk (Suc (Suc (Suc n)))), db')"
proof -
  have l: "(0::nat) < length [df]" by simp
  have u': "unambiguous ([df] ! 0)" using u by simp
  from prepare_ok[OF l u', of pd clk]
  have p: "prepare_data_for_db pd clk [df] 0 =
             (Inr (Suc (Suc 0)), (\<lambda>n. clk (Suc (Suc (Suc n)))), [df, df, prepared pd clk df])"
    by simp
  have n: "[df, df, prepared pd clk df] ! Suc (Suc 0) = prepared pd clk df" by simp
  show ?thesis
    by (simp add: load_csv_data_def csv p n sql nrows_prepared Let_def)
qed

lemma big_unambiguous: "unambiguous big_frame"
  by (simp add: unambiguous_def big_frame_def occurs_def rename_def target_def column_mapping_def
        date_columns_def numeric_columns_def string_columns_def)

section \<open>Claims\<close>

text \<open>
  Claim C10. In a generated column definition the \<^verbatim>\<open>DEFAULT\<close> clause is there exactly when
  the configured default is truthy, so the defaults \<^verbatim>\<open>0\<close>, \<^verbatim>\<open>false\<close> and the empty string give
  the text of a column with no default; \<^verbatim>\<open>NOT NULL\<close> is there exactly when \<^verbatim>\<open>nullable\<close> is
  present and false, and a missing \<^verbatim>\<open>nullable\<close> reads as true.
\<close>

theorem C10_default_and_not_null_clauses:
  "col_def n c =
     col_def n (c\<lparr>col_nullable := None, col_default := None\<rparr>)
       @ (case col_nullable c of Some w \<Rightarrow> if truthy w then [] else '' NOT NULL'' | None \<Rightarrow> [])
       @ (case col_default c of Some v \<Rightarrow> if truthy v then '' DEFAULT '' @ py_str v else [] | None \<Rightarrow> [])
   \<and> col_def n (c\<lparr>col_default := Some (YInt 0)\<rparr>) = col_def n (c\<lparr>col_default := None\<rparr>)
   \<and> col_def n (c\<lparr>col_default := Some (YBool False)\<rparr>) = col_def n (c\<lparr>col_default := None\<rparr>)
   \<and> col_def n (c\<lparr>col_default := Some (YStr [])\<rparr>) = col_def n (c\<lparr>col_default := None\<rparr>)
   \<and> col_def n (c\<lparr>col_nullable := Some (YBool False), col_default := None\<rparr>)
       = col_def n (c\<lparr>col_nullable := None, col_default := None\<rparr>) @ '' NOT NULL''
   \<and> col_def n (c\<lparr>col_nullable := Some (YBool True)\<rparr>) = col_def n (c\<lparr>col_nullable := None\<rparr>)"
  by (simp add: col_def_def get_truthy_def get_truthy_default_true_def Let_def split: option.splits)

theorem C10_default_and_not_null_clauses_witness:
  "col_def ''serial_number''
     \<lparr>col_type = ''INTEGER'', col_nullable = Some (YBool False), col_unique = None,
      col_primary_key = None, col_default = Some (YInt 0)\<rparr>
   = ''    serial_number INTEGER NOT NULL''"
  using C10_default_and_not_null_clauses[of "''serial_number''" "\<lparr>col_type = ''INTEGER'', col_nullable = Some (YBool False), col_unique = None,
      col_primary_key = None, col_default = Some (YInt 0)\<rparr>"]
  by (simp add: col_def_def get_truthy_def get_truthy_default_true_def)

text \<open>
  Claim C9. Record preparation works on a copy: whatever the call does, return or raise, the
  frame of the caller and every other frame that existed before the call are as they were,
  and a returned frame is a new object.
\<close>

theorem C9_input_frame_unchanged:
  assumes "df < length h" and "prepare_data_for_db pd clk h df = (r, clk', h')"
  shows "h' ! df = h ! df \<and> (\<forall>b < length h. h' ! b = h ! b)
         \<and> (\<forall>q. r = Inr q \<longrightarrow> q \<noteq> df \<and> length h \<le> q \<and> q < length h')"
  using prepare_frame[OF assms] assms(1) by auto

theorem C9_input_frame_unchanged_witness:
  "(0::nat) < length [sample_frame]
   \<and> snd (snd (prepare_data_for_db sample_pandas sample_clock [sample_frame] 0)) ! 0 = sample_frame
   \<and> fst (prepare_data_for_db sample_pandas sample_clock [sample_frame] 0) = Inr 2"
proof -
  have l: "(0::nat) < length [sample_frame]" by simp
  have u: "unambiguous ([sample_frame] ! 0)" by (simp add: sample_unambiguous)
  have e: "prepare_data_for_db sample_pandas sample_clock [sample_frame] 0
      = (fst (prepare_data_for_db sample_pandas sample_clock [sample_frame] 0),
         fst (snd (prepare_data_for_db sample_pandas sample_clock [sample_frame] 0)),
         snd (snd (prepare_data_for_db sample_pandas sample_clock [sample_frame] 0)))" by simp
  from C9_input_frame_unchanged[OF l e] prepare_ok[OF l u, of sample_pandas sample_clock] l show ?thesis by simp
qed




text \<open>
  Claim C3, amended. In one call of record preparation each of the fields \<^verbatim>\<open>imported_at\<close>,
  \<^verbatim>\<open>created_at\<close> and \<^verbatim>\<open>updated_at\<close> carries one value in every record, not one for each row.
  The three fields take three successive readings of the clock, in this order, so they are
  one point in time only when the clock does not advance between the readings.
\<close>

theorem C3_timestamps_one_reading_per_field:
  assumes "df < length h" and "prepare_data_for_db pd clk h df = (Inr q, clk', h')"
  shows "(\<forall>c. (''imported_at'', c) \<in> set (columns (h' ! q)) \<longleftrightarrow> c = replicate (nrows (h ! df)) (Date (clk 0)))
       \<and> (\<forall>c. (''created_at'', c) \<in> set (columns (h' ! q)) \<longleftrightarrow> c = replicate (nrows (h ! df)) (Date (clk 1)))
       \<and> (\<forall>c. (''updated_at'', c) \<in> set (columns (h' ! q)) \<longleftrightarrow> c = replicate (nrows (h ! df)) (Date (clk 2)))
       \<and> nrows (h' ! q) = nrows (h ! df)
       \<and> clk' = (\<lambda>n. clk (n + 3))"
proof -
  from prepare_result(3)[OF assms] have r: "h' ! q = prepared pd clk (h ! df)" .
  from prepare_result(4)[OF assms] have "clk' = (\<lambda>n. clk (n + 3))" by (simp add: numeral_3_eq_3)
  then show ?thesis by (simp only: r stamp_columns nrows_prepared) simp
qed

text \<open>
  With a clock that advances between two readings the three fields of the one record of the
  sample differ.
\<close>

theorem C3_fields_differ_counterexample:
  "(''imported_at'', [Date 1000]) \<in> set (columns (snd (snd (prepare_data_for_db sample_pandas sample_clock [sample_frame] 0)) ! 2))
   \<and> (''created_at'', [Date 1001]) \<in> set (columns (snd (snd (prepare_data_for_db sample_pandas sample_clock [sample_frame] 0)) ! 2))
   \<and> (''updated_at'', [Date 1002]) \<in> set (columns (snd (snd (prepare_data_for_db sample_pandas sample_clock [sample_frame] 0)) ! 2))
   \<and> Date (1000 :: int) \<noteq> (Date 1001 :: (int, int) cell) \<and> Date (1001 :: int) \<noteq> (Date 1002 :: (int, int) cell)"
  by (simp add: sample_run sample_prepared)

theorem C3_timestamps_one_reading_per_field_witness:
  "(''imported_at'', [Date 1000]) \<in> set (columns (snd (snd (prepare_data_for_db sample_pandas sample_clock [sample_frame] 0)) ! 2))
   \<and> fst (snd (prepare_data_for_db sample_pandas sample_clock [sample_frame] 0)) 0 = 1003"
proof -
  have l: "(0::nat) < length [sample_frame :: (int, int) frame]" by simp
  have n: "nrows ([sample_frame :: (int, int) frame] ! 0) = 1" by (simp add: sample_frame_def)
  have c0: "sample_clock 0 = 1000" by (simp add: sample_clock_def)
  from C3_timestamps_one_reading_per_field[OF l sample_run, THEN conjunct1]
  have "(''imported_at'', replicate (nrows ([sample_frame :: (int, int) frame] ! 0)) (Date (sample_clock 0)))
          \<in> set (columns ([sample_frame, sample_frame, prepared sample_pandas sample_clock sample_frame] ! 2))"
    by blast
  then have "(''imported_at'', [Date 1000])
          \<in> set (columns ([sample_frame, sample_frame, prepared sample_pandas sample_clock sample_frame] ! 2))"
    by (simp only: n c0) simp
  then show ?thesis unfolding sample_run by (simp add: sample_clock_def)
qed

text \<open>
  Claim C4. In each of the seven text columns every cell of the prepared frame is the text of
  the source cell with the surrounding whitespace removed, or the null \<^verbatim>\<open>None\<close> when that
  trimmed text is \<^verbatim>\<open>nan\<close>. The source row
  \<^verbatim>\<open>{"S.no": "7", "Status": "nan", "Farmer Code": "  FC9  "}\<close> becomes
  \<^verbatim>\<open>{serial_number: 7, status: null, farmer_code: "FC9"}\<close> with the three timestamps, for a
  pandas that reads the text \<^verbatim>\<open>7\<close> as the number seven.
\<close>

theorem C4_text_columns_trimmed_nan_to_null:
  "(df < length h \<longrightarrow> prepare_data_for_db pd clk h df = (Inr q, clk', h') \<longrightarrow>
      (l, c) \<in> set (columns (h ! df)) \<longrightarrow> target column_mapping l \<in> set string_columns \<longrightarrow>
      (target column_mapping l,
       map (\<lambda>x. if strip (cell_str pd x) = ''nan'' then PyNone else Str (strip (cell_str pd x))) c)
        \<in> set (columns (h' ! q)))
   \<and> set string_columns = {''status'', ''farmer_code'', ''farmer_name'', ''govt_id_number'',
                            ''primary_contact'', ''village'', ''source_sheet''}
   \<and> (\<exists>pre post. s = pre @ strip s @ post \<and> (\<forall>x\<in>set pre. py_isspace x) \<and> (\<forall>x\<in>set post. py_isspace x)
         \<and> (strip s \<noteq> [] \<longrightarrow> \<not> py_isspace (hd (strip s)) \<and> \<not> py_isspace (last (strip s))))
   \<and> (parse_numeric pd [Str ''7''] 0 = Some seven \<longrightarrow>
        (\<exists>clk'' h''. prepare_data_for_db pd clk [sample_frame] 0 = (Inr 2, clk'', h'') \<and>
           columns (h'' ! 2) =
             [(''serial_number'', [Num seven]), (''status'', [PyNone]), (''farmer_code'', [Str ''FC9'']),
              (''imported_at'', [Date (clk 0)]), (''created_at'', [Date (clk 1)]),
              (''updated_at'', [Date (clk 2)])]))"
proof -
  have A: "df < length h \<longrightarrow> prepare_data_for_db pd clk h df = (Inr q, clk', h') \<longrightarrow>
      (l, c) \<in> set (columns (h ! df)) \<longrightarrow> target column_mapping l \<in> set string_columns \<longrightarrow>
      (target column_mapping l,
       map (\<lambda>x. if strip (cell_str pd x) = ''nan'' then PyNone else Str (strip (cell_str pd x))) c)
        \<in> set (columns (h' ! q))"
  proof (intro impI)
    assume a: "df < length h" and p: "prepare_data_for_db pd clk h df = (Inr q, clk', h')"
      and m: "(l, c) \<in> set (columns (h ! df))" and t: "target column_mapping l \<in> set string_columns"
    from prepare_result(3)[OF a p] have r: "h' ! q = prepared pd clk (h ! df)" .
    from t have "target column_mapping l \<in> set date_columns \<union> set numeric_columns \<union> set string_columns"
      by simp
    from prepared_member[OF m this, of pd clk]
    have "(target column_mapping l, map (clean_cell pd) c) \<in> set (columns (prepared pd clk (h ! df)))"
      by (simp only: convert_cases(3)[OF t])
    moreover have "map (clean_cell pd) c =
        map (\<lambda>x. if strip (cell_str pd x) = ''nan'' then PyNone else Str (strip (cell_str pd x))) c"
      by (simp add: clean_cell_def Let_def)
    ultimately show "(target column_mapping l,
       map (\<lambda>x. if strip (cell_str pd x) = ''nan'' then PyNone else Str (strip (cell_str pd x))) c)
        \<in> set (columns (h' ! q))"
      by (simp only: r)
  qed
  have B: "set string_columns = {''status'', ''farmer_code'', ''farmer_name'', ''govt_id_number'',
                            ''primary_contact'', ''village'', ''source_sheet''}"
    by (simp add: string_columns_def)
  have D: "parse_numeric pd [Str ''7''] 0 = Some seven \<longrightarrow>
        (\<exists>clk'' h''. prepare_data_for_db pd clk [sample_frame] 0 = (Inr 2, clk'', h'') \<and>
           columns (h'' ! 2) =
             [(''serial_number'', [Num seven]), (''status'', [PyNone]), (''farmer_code'', [Str ''FC9'']),
              (''imported_at'', [Date (clk 0)]), (''created_at'', [Date (clk 1)]),
              (''updated_at'', [Date (clk 2)])])"
  proof
    assume n: "parse_numeric pd [Str ''7''] 0 = Some seven"
    have l: "(0::nat) < length [sample_frame :: ('a, 'b) frame]" by simp
    have u: "unambiguous ([sample_frame :: ('a, 'b) frame] ! 0)" by (simp add: sample_unambiguous)
    from prepare_ok[OF l u, of pd clk]
    have "prepare_data_for_db pd clk [sample_frame] 0 =
       (Inr 2, (\<lambda>n. clk (Suc (Suc (Suc n)))), [sample_frame, sample_frame, prepared pd clk sample_frame])"
      by simp
    moreover have "columns ([sample_frame, sample_frame, prepared pd clk sample_frame] ! 2) =
             [(''serial_number'', [Num seven]), (''status'', [PyNone]), (''farmer_code'', [Str ''FC9'']),
              (''imported_at'', [Date (clk 0)]), (''created_at'', [Date (clk 1)]),
              (''updated_at'', [Date (clk 2)])]"
      using scenario_prepared[OF n, of clk] by simp
    ultimately show "\<exists>clk'' h''. prepare_data_for_db pd clk [sample_frame] 0 = (Inr 2, clk'', h'') \<and>
           columns (h'' ! 2) =
             [(''serial_number'', [Num seven]), (''status'', [PyNone]), (''farmer_code'', [Str ''FC9'']),
              (''imported_at'', [Date (clk 0)]), (''created_at'', [Date (clk 1)]),
              (''updated_at'', [Date (clk 2)])]"
      by blast
  qed
  from A B strip_spec[of s] D show ?thesis by blast
qed

theorem C4_text_columns_trimmed_nan_to_null_witness:
  "(''status'', [PyNone]) \<in> set (columns (snd (snd (prepare_data_for_db sample_pandas sample_clock [sample_frame] 0)) ! 2))
   \<and> (\<exists>clk'' h''. prepare_data_for_db sample_pandas sample_clock [sample_frame] 0 = (Inr 2, clk'', h'') \<and>
           columns (h'' ! 2) =
             [(''serial_number'', [Num 7]), (''status'', [PyNone]), (''farmer_code'', [Str ''FC9'']),
              (''imported_at'', [Date (sample_clock 0)]), (''created_at'', [Date (sample_clock 1)]),
              (''updated_at'', [Date (sample_clock 2)])])"
proof -
  let ?h' = "[sample_frame, sample_frame, prepared sample_pandas sample_clock sample_frame]"
  note t = C4_text_columns_trimmed_nan_to_null[where df = 0 and h = "[sample_frame]" and pd = sample_pandas and clk = sample_clock
      and q = 2 and clk' = "\<lambda>n. sample_clock (Suc (Suc (Suc n)))" and h' = ?h'
      and l = "''Status''" and c = "[Str ''nan'']" and seven = 7]
  have l: "(0::nat) < length [sample_frame :: (int, int) frame]" by simp
  have m: "(''Status'', [Str ''nan'']) \<in> set (columns ([sample_frame :: (int, int) frame] ! 0))"
    by (simp add: sample_frame_def)
  have s: "target column_mapping ''Status'' \<in> set string_columns"
    by (simp add: target_scenario string_columns_def)
  have n: "parse_numeric sample_pandas [Str ''7''] 0 = Some 7" by (simp add: sample_pandas_def)
  from t[THEN conjunct1, THEN mp, OF l, THEN mp, OF sample_run, THEN mp, OF m, THEN mp, OF s]
  have "(''status'', [PyNone]) \<in> set (columns (?h' ! 2))"
    by (simp add: target_scenario strip_FC9)
  then have a: "(''status'', [PyNone]) \<in> set (columns (snd (snd (prepare_data_for_db sample_pandas sample_clock [sample_frame] 0)) ! 2))"
    unfolding sample_run by simp
  from t[THEN conjunct2, THEN conjunct2, THEN conjunct2, THEN mp, OF n] a
  show ?thesis by (rule conjI[rotated])
qed

text \<open>
  Claim C5, amended. When no name of a converted column is carried by two columns once the
  headers are renamed, record preparation returns without an exception, and a cell of a date
  column or of a numeric column is null wherever the source cell is empty or pandas cannot
  read it, the value that pandas reads otherwise.
\<close>

theorem C5_coercion_total_without_name_clash:
  assumes "df < length h" and "unambiguous (h ! df)"
  shows "\<exists>clk' h'. prepare_data_for_db pd clk h df = (Inr (Suc (length h)), clk', h') \<and>
     (\<forall>l c. (l, c) \<in> set (columns (h ! df)) \<longrightarrow>
        (target column_mapping l \<in> set date_columns \<longrightarrow>
           (\<exists>c'. (target column_mapping l, c') \<in> set (columns (h' ! Suc (length h))) \<and> length c' = length c \<and>
              (\<forall>i<length c.
                 c' ! i = (if is_empty (c ! i) then NaT
                           else case parse_datetime pd c i of Some d \<Rightarrow> Date d | None \<Rightarrow> NaT)
                 \<and> (is_empty (c ! i) \<or> parse_datetime pd c i = None \<longrightarrow> is_null (c' ! i))))) \<and>
        (target column_mapping l \<in> set numeric_columns \<longrightarrow>
           (\<exists>c'. (target column_mapping l, c') \<in> set (columns (h' ! Suc (length h))) \<and> length c' = length c \<and>
              (\<forall>i<length c.
                 c' ! i = (if is_empty (c ! i) then NaN
                           else case parse_numeric pd c i of Some n \<Rightarrow> Num n | None \<Rightarrow> NaN)
                 \<and> (is_empty (c ! i) \<or> parse_numeric pd c i = None \<longrightarrow> is_null (c' ! i))))))"
proof -
  let ?h' = "h @ [h ! df, prepared pd clk (h ! df)]"
  have hq: "?h' ! Suc (length h) = prepared pd clk (h ! df)" by (simp add: nth_append)
  have "\<forall>l c. (l, c) \<in> set (columns (h ! df)) \<longrightarrow>
        (target column_mapping l \<in> set date_columns \<longrightarrow>
           (\<exists>c'. (target column_mapping l, c') \<in> set (columns (?h' ! Suc (length h))) \<and> length c' = length c \<and>
              (\<forall>i<length c.
                 c' ! i = (if is_empty (c ! i) then NaT
                           else case parse_datetime pd c i of Some d \<Rightarrow> Date d | None \<Rightarrow> NaT)
                 \<and> (is_empty (c ! i) \<or> parse_datetime pd c i = None \<longrightarrow> is_null (c' ! i))))) \<and>
        (target column_mapping l \<in> set numeric_columns \<longrightarrow>
           (\<exists>c'. (target column_mapping l, c') \<in> set (columns (?h' ! Suc (length h))) \<and> length c' = length c \<and>
              (\<forall>i<length c.
                 c' ! i = (if is_empty (c ! i) then NaN
                           else case parse_numeric pd c i of Some n \<Rightarrow> Num n | None \<Rightarrow> NaN)
                 \<and> (is_empty (c ! i) \<or> parse_numeric pd c i = None \<longrightarrow> is_null (c' ! i)))))"
  proof (intro allI impI conjI)
    fix l c assume m: "(l, c) \<in> set (columns (h ! df))" and t: "target column_mapping l \<in> set date_columns"
    let ?c' = "map (datetime_cell pd c) (enumerate 0 c)"
    from t have "target column_mapping l \<in> set date_columns \<union> set numeric_columns \<union> set string_columns"
      by simp
    from prepared_member[OF m this, of pd clk]
    have "(target column_mapping l, ?c') \<in> set (columns (?h' ! Suc (length h)))"
      by (simp only: convert_cases(1)[OF t] hq)
    moreover have "length ?c' = length c" by simp
    moreover have "\<forall>i<length c.
                 ?c' ! i = (if is_empty (c ! i) then NaT
                           else case parse_datetime pd c i of Some d \<Rightarrow> Date d | None \<Rightarrow> NaT)
                 \<and> (is_empty (c ! i) \<or> parse_datetime pd c i = None \<longrightarrow> is_null (?c' ! i))"
    proof (intro allI impI)
      fix i assume "i < length c"
      from nth_datetime[OF this, of pd]
      show "?c' ! i = (if is_empty (c ! i) then NaT
                           else case parse_datetime pd c i of Some d \<Rightarrow> Date d | None \<Rightarrow> NaT)
                 \<and> (is_empty (c ! i) \<or> parse_datetime pd c i = None \<longrightarrow> is_null (?c' ! i))"
        by (simp only:) (auto split: option.splits)
    qed
    ultimately show "\<exists>c'. (target column_mapping l, c') \<in> set (columns (?h' ! Suc (length h))) \<and> length c' = length c \<and>
              (\<forall>i<length c.
                 c' ! i = (if is_empty (c ! i) then NaT
                           else case parse_datetime pd c i of Some d \<Rightarrow> Date d | None \<Rightarrow> NaT)
                 \<and> (is_empty (c ! i) \<or> parse_datetime pd c i = None \<longrightarrow> is_null (c' ! i)))"
      by blast
  next
    fix l c assume m: "(l, c) \<in> set (columns (h ! df))" and t: "target column_mapping l \<in> set numeric_columns"
    let ?c' = "map (numeric_cell pd c) (enumerate 0 c)"
    from t have "target column_mapping l \<in> set date_columns \<union> set numeric_columns \<union> set string_columns"
      by simp
    from prepared_member[OF m this, of pd clk]
    have "(target column_mapping l, ?c') \<in> set (columns (?h' ! Suc (length h)))"
      by (simp only: convert_cases(2)[OF t] hq)
    moreover have "length ?c' = length c" by simp
    moreover have "\<forall>i<length c.
                 ?c' ! i = (if is_empty (c ! i) then NaN
                           else case parse_numeric pd c i of Some n \<Rightarrow> Num n | None \<Rightarrow> NaN)
                 \<and> (is_empty (c ! i) \<or> parse_numeric pd c i = None \<longrightarrow> is_null (?c' ! i))"
    proof (intro allI impI)
      fix i assume "i < length c"
      from nth_numeric[OF this, of pd]
      show "?c' ! i = (if is_empty (c ! i) then NaN
                           else case parse_numeric pd c i of Some n \<Rightarrow> Num n | None \<Rightarrow> NaN)
                 \<and> (is_empty (c ! i) \<or> parse_numeric pd c i = None \<longrightarrow> is_null (?c' ! i))"
        by (simp only:) (auto split: option.splits)
    qed
    ultimately show "\<exists>c'. (target column_mapping l, c') \<in> set (columns (?h' ! Suc (length h))) \<and> length c' = length c \<and>
              (\<forall>i<length c.
                 c' ! i = (if is_empty (c ! i) then NaN
                           else case parse_numeric pd c i of Some n \<Rightarrow> Num n | None \<Rightarrow> NaN)
                 \<and> (is_empty (c ! i) \<or> parse_numeric pd c i = None \<longrightarrow> is_null (c' ! i)))"
      by blast
  qed
  with prepare_ok[OF assms, of pd clk] show ?thesis by blast
qed

theorem C5_coercion_total_without_name_clash_witness:
  "(''sync_date'', [NaT, NaT]) \<in> set (columns (snd (snd (prepare_data_for_db sample_pandas sample_clock [unparsable_frame] 0)) ! 2))
   \<and> (''area'', [Num 7, NaN]) \<in> set (columns (snd (snd (prepare_data_for_db sample_pandas sample_clock [unparsable_frame] 0)) ! 2))"
proof -
  let ?H = "[unparsable_frame, unparsable_frame, prepared sample_pandas sample_clock unparsable_frame] :: (int, int) heap"
  have l: "(0::nat) < length [unparsable_frame :: (int, int) frame]" by simp
  have u: "unambiguous ([unparsable_frame :: (int, int) frame] ! 0)" by (simp add: unparsable_unambiguous)
  note AB = result_heap_eq[OF C5_coercion_total_without_name_clash[OF l u, of sample_pandas sample_clock] unparsable_run]
  have m1: "(''Sync Date'', [Str ''soon'', NaN]) \<in> set (columns ([unparsable_frame :: (int, int) frame] ! 0))"
    and m2: "(''Area'', [Str ''7'', Str ''x'']) \<in> set (columns ([unparsable_frame :: (int, int) frame] ! 0))"
    by (simp_all add: unparsable_frame_def)
  have t1: "target column_mapping ''Sync Date'' \<in> set date_columns"
    and t2: "target column_mapping ''Area'' \<in> set numeric_columns"
    by (simp_all add: target_unparsable date_columns_def numeric_columns_def)
  from AB[THEN spec, THEN spec, THEN mp, OF m1, THEN conjunct1, THEN mp, OF t1]
  obtain c1 where c1: "(target column_mapping ''Sync Date'', c1) \<in> set (columns (?H ! Suc (length [unparsable_frame :: (int, int) frame])))"
    "length c1 = length [Str ''soon'', NaN :: (int, int) cell]"
    "\<forall>i<length [Str ''soon'', NaN :: (int, int) cell]. c1 ! i = (if is_empty ([Str ''soon'', NaN :: (int, int) cell] ! i) then NaT
                           else case parse_datetime sample_pandas [Str ''soon'', NaN] i of Some d \<Rightarrow> Date d | None \<Rightarrow> NaT)
          \<and> (is_empty ([Str ''soon'', NaN :: (int, int) cell] ! i) \<or> parse_datetime sample_pandas [Str ''soon'', NaN] i = None
                \<longrightarrow> is_null (c1 ! i))"
    by (elim exE conjE)
  from c1(3) have "c1 ! 0 = NaT" "c1 ! 1 = NaT" by (simp_all add: sample_pandas_def)
  with c1(2) have e1: "c1 = [NaT, NaT]" by (simp add: list_eq_iff_nth_eq less_Suc_eq numeral_2_eq_2)
  from AB[THEN spec, THEN spec, THEN mp, OF m2, THEN conjunct2, THEN mp, OF t2]
  obtain c2 where c2: "(target column_mapping ''Area'', c2) \<in> set (columns (?H ! Suc (length [unparsable_frame :: (int, int) frame])))"
    "length c2 = length [Str ''7'', Str ''x'' :: (int, int) cell]"
    "\<forall>i<length [Str ''7'', Str ''x'' :: (int, int) cell]. c2 ! i = (if is_empty ([Str ''7'', Str ''x'' :: (int, int) cell] ! i) then NaN
                           else case parse_numeric sample_pandas [Str ''7'', Str ''x''] i of Some n \<Rightarrow> Num n | None \<Rightarrow> NaN)
          \<and> (is_empty ([Str ''7'', Str ''x'' :: (int, int) cell] ! i) \<or> parse_numeric sample_pandas [Str ''7'', Str ''x''] i = None
                \<longrightarrow> is_null (c2 ! i))"
    by (elim exE conjE)
  from c2(3) have "c2 ! 0 = Num 7" "c2 ! 1 = NaN" by (simp_all add: sample_pandas_def)
  with c2(2) have e2: "c2 = [Num 7, NaN]" by (simp add: list_eq_iff_nth_eq less_Suc_eq numeral_2_eq_2)
  from c1(1) c2(1) show ?thesis unfolding unparsable_run e1 e2 by (simp add: target_unparsable)
qed

text \<open>
  The headers \<^verbatim>\<open>Area\<close> and \<^verbatim>\<open>area\<close> are both renamed to \<^verbatim>\<open>area\<close>; then \<^verbatim>\<open>df_prep['area']\<close> is
  a \<^verbatim>\<open>DataFrame\<close> and \<^verbatim>\<open>pd.to_numeric\<close> raises \<^verbatim>\<open>TypeError\<close>, which \<^verbatim>\<open>errors='coerce'\<close> does
  not catch.
\<close>

theorem C5_name_clash_raises_counterexample:
  "fst (prepare_data_for_db sample_pandas sample_clock [clashing_frame] 0) = Inl TypeError"
  by (simp add: prepare_data_for_db_def df_copy_def df_rename_def clashing_frame_def rename_def
        target_def column_mapping_def date_columns_def numeric_columns_def convert_column_def
        labels_def getitem_def to_numeric_def)

text \<open>
  Claim C8. \<^verbatim>\<open>get_table_stats\<close> returns a dictionary in every case. When there is no engine,
  the server cannot be reached, the table is missing or one of the three queries is
  refused, the failure is logged and the dictionary is empty; otherwise it holds the row
  count and the group counts by \<^verbatim>\<open>source_sheet\<close> and by \<^verbatim>\<open>status\<close>.
\<close>

theorem C8_stats_empty_on_failure:
  "(ld_engine ld = None \<or>
      (\<exists>eng. ld_engine ld = Some eng \<and>
         (\<not> connects eng
          \<or> rejects eng (count_sql (table_name (cfg_table_schema (ld_config ld))))
          \<or> rejects eng (group_sql ''source_sheet'' (table_name (cfg_table_schema (ld_config ld))))
          \<or> rejects eng (group_sql ''status'' (table_name (cfg_table_schema (ld_config ld))))
          \<or> map_of (db_tables db) (table_name (cfg_table_schema (ld_config ld))) = None))
     \<longrightarrow> (\<exists>e. get_table_stats ld db = (EmptyDict, [FailedStats e])))
   \<and> (ld_engine ld = Some eng \<and> connects eng
        \<and> \<not> rejects eng (count_sql (table_name (cfg_table_schema (ld_config ld))))
        \<and> \<not> rejects eng (group_sql ''source_sheet'' (table_name (cfg_table_schema (ld_config ld))))
        \<and> \<not> rejects eng (group_sql ''status'' (table_name (cfg_table_schema (ld_config ld))))
        \<and> map_of (db_tables db) (table_name (cfg_table_schema (ld_config ld))) = Some rows
     \<longrightarrow> get_table_stats ld db =
           (StatsDict (length rows) (group_count ''source_sheet'' rows) (group_count ''status'' rows), []))"
  by (auto simp: get_table_stats_def stats_queries_def query_count_def query_group_def Let_def
           split: option.splits sum.splits)

theorem C8_stats_empty_on_failure_witness:
  "get_table_stats sample_loader (loaded_database :: (int, int) database) =
     (StatsDict 2 [(Str ''Sheet1'', 2)] [(Str ''Active'', 1), (PyNone, 1)], [])
   \<and> (\<exists>e. get_table_stats (sample_loader\<lparr>ld_engine := None\<rparr>) (loaded_database :: (int, int) database)
            = (EmptyDict, [FailedStats e]))"
proof -
  have ok: "ld_engine (sample_loader :: (int, int) loader) = Some accepting_engine \<and> connects (accepting_engine :: (int, int) engine)
        \<and> \<not> rejects (accepting_engine :: (int, int) engine) (count_sql (table_name (cfg_table_schema (ld_config (sample_loader :: (int, int) loader)))))
        \<and> \<not> rejects (accepting_engine :: (int, int) engine) (group_sql ''source_sheet'' (table_name (cfg_table_schema (ld_config (sample_loader :: (int, int) loader)))))
        \<and> \<not> rejects (accepting_engine :: (int, int) engine) (group_sql ''status'' (table_name (cfg_table_schema (ld_config (sample_loader :: (int, int) loader)))))
        \<and> map_of (db_tables (loaded_database :: (int, int) database)) (table_name (cfg_table_schema (ld_config (sample_loader :: (int, int) loader)))) = Some loaded_rows"
    by (simp add: sample_table_name) (simp add: sample_loader_def accepting_engine_def loaded_database_def)
  have bad: "ld_engine (sample_loader\<lparr>ld_engine := None\<rparr> :: (int, int) loader) = None \<or>
      (\<exists>eng. ld_engine (sample_loader\<lparr>ld_engine := None\<rparr> :: (int, int) loader) = Some eng \<and>
         (\<not> connects eng
          \<or> rejects eng (count_sql (table_name (cfg_table_schema (ld_config (sample_loader\<lparr>ld_engine := None\<rparr> :: (int, int) loader)))))
          \<or> rejects eng (group_sql ''source_sheet'' (table_name (cfg_table_schema (ld_config (sample_loader\<lparr>ld_engine := None\<rparr> :: (int, int) loader)))))
          \<or> rejects eng (group_sql ''status'' (table_name (cfg_table_schema (ld_config (sample_loader\<lparr>ld_engine := None\<rparr> :: (int, int) loader)))))
          \<or> map_of (db_tables (loaded_database :: (int, int) database)) (table_name (cfg_table_schema (ld_config (sample_loader\<lparr>ld_engine := None\<rparr> :: (int, int) loader)))) = None))"
    by simp
  from C8_stats_empty_on_failure[where ld = sample_loader and db = "loaded_database :: (int, int) database"
        and eng = accepting_engine and rows = loaded_rows, THEN conjunct2, THEN mp, OF ok]
  have a: "get_table_stats sample_loader (loaded_database :: (int, int) database) =
     (StatsDict 2 [(Str ''Sheet1'', 2)] [(Str ''Active'', 1), (PyNone, 1)], [])"
    by (simp add: loaded_groups) (simp add: loaded_rows_def)
  from C8_stats_empty_on_failure[where ld = "sample_loader\<lparr>ld_engine := None\<rparr>" and db = "loaded_database :: (int, int) database",
        THEN conjunct1, THEN mp, OF bad]
  have b: "\<exists>e. get_table_stats (sample_loader\<lparr>ld_engine := None\<rparr>) (loaded_database :: (int, int) database)
            = (EmptyDict, [FailedStats e])" .
  from a b show ?thesis by (rule conjI)
qed



text \<open>
  Claim C2, amended. When the table statement has succeeded and the statement for one index
  raises, after the indexes before it went through, the failure is logged and index creation
  ends there: the indexes after it are not attempted, the indexes created before it in this
  call are rolled back with the uncommitted transaction, so the catalog of indexes is as it
  was before the call. \<^verbatim>\<open>create_table\<close> still returns success, and the table stays.
\<close>

theorem C2_index_failure_ends_index_creation:
  assumes eng: "ld_engine ld = Some eng" "connects eng"
    and tbl: "exec_create_table eng db (create_sql (cfg_table_schema (ld_config ld)))
                (table_name (cfg_table_schema (ld_config ld))) = Inr db1"
    and idx: "cfg_indexes (ld_config ld) = Some (pre @ i # post)"
    and pre: "index_loop eng (table_name (cfg_table_schema (ld_config ld))) pre db1 [] = (Inr p1, log1)"
    and fail: "index_loop eng (table_name (cfg_table_schema (ld_config ld))) [i] p1 log1 = (Inl e, log2)"
  shows "create_table ld db =
           (True, TableCreated (table_name (cfg_table_schema (ld_config ld))) # log2 @ [FailedCreateIndexes e], db1)
         \<and> pg_indexes db1 = pg_indexes db"
proof -
  let ?t = "table_name (cfg_table_schema (ld_config ld))"
  from index_loop_first_fails[OF fail]
  have "index_loop eng ?t (i # post) p1 log1 = (Inl e, log2)" .
  with pre have "index_loop eng ?t (pre @ i # post) db1 [] = (Inl e, log2)"
    by (simp add: index_loop_append)
  with tbl idx have "create_table ld db = (True, TableCreated ?t # log2 @ [FailedCreateIndexes e], db1)"
    by (simp add: create_table_unfold[OF eng])
  with exec_create_table_cases(2)[OF tbl] show ?thesis by simp
qed

theorem C2_index_failure_ends_index_creation_witness:
  "create_table refused_loader (empty_database :: (int, int) database) =
     (True,
      [TableCreated ''bellary_farmers'', IndexCreated ''idx_status'',
       FailedCreateIndexes (DatabaseError (index_sql ''bellary_farmers'' idx_code))],
      \<lparr>db_tables = [(''bellary_farmers'', [])], pg_indexes = []\<rparr>)"
proof -
  have e: "ld_engine (refused_loader :: (int, int) loader) = Some refusing_engine"
    "connects (refusing_engine :: (int, int) engine)"
    by (simp_all add: refused_loader_def refusing_engine_simps)
  have c: "ld_config (refused_loader :: (int, int) loader) = sample_config" by (simp add: refused_loader_def)
  have i: "cfg_indexes (ld_config (refused_loader :: (int, int) loader)) = Some ([idx_status] @ idx_code # [idx_sheet])"
    by (simp add: c sample_config_simps)
  have t: "exec_create_table refusing_engine (empty_database :: (int, int) database)
             (create_sql (cfg_table_schema (ld_config (refused_loader :: (int, int) loader))))
             (table_name (cfg_table_schema (ld_config (refused_loader :: (int, int) loader))))
           = Inr \<lparr>db_tables = [(''bellary_farmers'', [])], pg_indexes = []\<rparr>"
    by (simp add: c sample_config_simps refused_table)
  have p: "index_loop refusing_engine (table_name (cfg_table_schema (ld_config (refused_loader :: (int, int) loader))))
             [idx_status] \<lparr>db_tables = [(''bellary_farmers'', []) :: string \<times> (int, int) row list], pg_indexes = []\<rparr> []
           = (Inr \<lparr>db_tables = [(''bellary_farmers'', [])], pg_indexes = [(''bellary_farmers'', ''idx_status'')]\<rparr>,
              [IndexCreated ''idx_status''])"
    by (simp only: c sample_config_simps refused_first)
  have f: "index_loop refusing_engine (table_name (cfg_table_schema (ld_config (refused_loader :: (int, int) loader))))
             [idx_code] \<lparr>db_tables = [(''bellary_farmers'', []) :: string \<times> (int, int) row list],
                          pg_indexes = [(''bellary_farmers'', ''idx_status'')]\<rparr> [IndexCreated ''idx_status'']
           = (Inl (DatabaseError (index_sql ''bellary_farmers'' idx_code)), [IndexCreated ''idx_status''])"
    by (simp only: c sample_config_simps refused_second)
  from C2_index_failure_ends_index_creation[OF e t i p f] show ?thesis by (simp add: c sample_config_simps)
qed

text \<open>
  The server refuses the statement for the second of three indexes and would accept the
  third. \<^verbatim>\<open>create_table\<close> returns success, and the third index is not in the catalog.
\<close>

theorem C2_later_index_not_created_counterexample:
  "fst (create_table refused_loader (empty_database :: (int, int) database)) = True
   \<and> \<not> rejects (refusing_engine :: (int, int) engine) (index_sql ''bellary_farmers'' idx_sheet)
   \<and> idx_sheet \<in> set (the (cfg_indexes (ld_config (refused_loader :: (int, int) loader))))
   \<and> (''bellary_farmers'', ''idx_sheet'') \<notin> set (pg_indexes (snd (snd (create_table refused_loader (empty_database :: (int, int) database)))))"
proof -
  have "create_table refused_loader (empty_database :: (int, int) database) =
     (True,
      [TableCreated ''bellary_farmers'', IndexCreated ''idx_status'',
       FailedCreateIndexes (DatabaseError (index_sql ''bellary_farmers'' idx_code))],
      \<lparr>db_tables = [(''bellary_farmers'', [])], pg_indexes = []\<rparr>)"
    by (simp add: create_table_def create_indexes_def refused_loader_def sample_config_simps
          refusing_engine_simps refused_table exec_create_index_def sample_sql_distinct index_names
          relation_names_def Let_def)
  moreover have "idx_sheet \<in> set (the (cfg_indexes (ld_config (refused_loader :: (int, int) loader))))"
    by (simp add: refused_loader_def sample_config_simps)
  ultimately show ?thesis
    by (simp add: refusing_engine_simps sample_sql_distinct)
qed

text \<open>
  Claim C6. When the file is read, the frame is prepared, the table exists and the server
  accepts every batch, loading \<open>N\<close> records with a positive batch size \<open>B\<close> sends
  \<open>(N + B - 1) div B\<close> batches, each with at least one and at most \<open>B\<close> rows, which
  together are the \<open>N\<close> records in their order. The rows of the table afterwards are
  the rows it had followed by these records, and every other table and the index catalog are
  as they were. \<^verbatim>\<open>load_csv_data\<close> returns success and its log reports \<open>N\<close> records loaded.
  With 2500 records and batch size 1000 the batches have 1000, 1000 and 500 rows.
\<close>

theorem C6_batches_append_all_records:
  assumes B: "0 < B" and eng: "ld_engine ld = Some eng" "connects eng"
    and acc: "\<And>batch. \<not> rejects_insert eng (table_name (cfg_table_schema (ld_config ld))) batch"
    and old: "map_of (db_tables db) (table_name (cfg_table_schema (ld_config ld))) = Some old"
    and csv: "fs csv_path = Some (Inr df)" and u: "unambiguous df"
  shows "\<exists>sent log clk' db'.
       to_sql (ld_engine ld) db (table_name (cfg_table_schema (ld_config ld)))
         (prepared pd clk df) (int B) = (Inr sent, db')
     \<and> load_csv_data ld pd fs clk db csv_path (int B) = (True, log, clk', db')
     \<and> SuccessfullyLoaded (nrows df) \<in> set log
     \<and> map_of (db_tables db') (table_name (cfg_table_schema (ld_config ld))) = Some (old @ concat sent)
     \<and> (\<forall>n. n \<noteq> table_name (cfg_table_schema (ld_config ld)) \<longrightarrow>
            map_of (db_tables db') n = map_of (db_tables db) n)
     \<and> pg_indexes db' = pg_indexes db
     \<and> concat sent = records (prepared pd clk df)
     \<and> length (concat sent) = nrows df
     \<and> length sent = (nrows df + B - 1) div B
     \<and> (\<forall>b\<in>set sent. 0 < length b \<and> length b \<le> B)
     \<and> (nrows df = 2500 \<and> B = 1000 \<longrightarrow> map length sent = [1000, 1000, 500])"
proof -
  let ?t = "table_name (cfg_table_schema (ld_config ld))"
  let ?f = "prepared pd clk df"
  let ?rows = "records ?f"
  let ?sent = "map (\<lambda>i. take B (drop (i * B) ?rows)) [0..<(nrows ?f + B - 1) div B]"
  let ?db' = "with_rows ?t ?rows db"
  have n: "nrows ?f = nrows df" by (rule nrows_prepared)
  have len: "length ?rows = nrows df" by (simp add: length_records n)
  from old have tin: "?t \<in> set (map fst (db_tables db))"
    by (metis map_of_SomeD image_eqI set_map fst_conv)
  from to_sql_ok[OF B eng(2) acc tin, of ?f]
  have sql: "to_sql (ld_engine ld) db ?t ?f (int B) = (Inr ?sent, ?db')" by (simp only: eng(1))
  note load = load_unfold[where fs = fs and csv_path = csv_path, OF csv u sql]
  have cc: "concat ?sent = ?rows"
    using concat_chunks[OF B, of ?rows] by (simp only: length_records)
  have sizes: "\<forall>b\<in>set ?sent. 0 < length b \<and> length b \<le> B"
    using chunk_sizes[OF B, of ?rows] by (simp only: length_records)
  have special: "nrows df = 2500 \<and> B = 1000 \<longrightarrow> map length ?sent = [1000, 1000, 500]"
  proof
    assume a: "nrows df = 2500 \<and> B = 1000"
    with len have "length ?rows = 2500" by simp
    from chunk_sizes_2500[OF this] a n show "map length ?sent = [1000, 1000, 500]" by simp
  qed
  have m1: "map_of (db_tables ?db') ?t = Some (old @ concat ?sent)"
    by (simp only: cc map_of_with_rows old) simp
  have m2: "\<forall>n. n \<noteq> ?t \<longrightarrow> map_of (db_tables ?db') n = map_of (db_tables db) n"
    by (simp add: map_of_with_rows)
  have ls: "length ?sent = (nrows df + B - 1) div B" by (simp add: n)
  have lc: "length (concat ?sent) = nrows df" by (simp only: cc len)
  have lg: "SuccessfullyLoaded (nrows df) \<in> set
      ([ReadingCsv csv_path, LoadedFromCsv (nrows df), LoadingRecords (nrows df) ?t,
       SuccessfullyLoaded (nrows df)] @ verify_data_load ld ?db' ?t (nrows df))" by simp
  have ix: "pg_indexes ?db' = pg_indexes db" by (rule with_rows_indexes)
  show ?thesis
    apply (intro exI conjI)
              apply (rule sql)
             apply (rule load)
            apply (rule lg)
           apply (rule m1)
          apply (rule m2)
         apply (rule ix)
        apply (rule cc)
       apply (rule lc)
      apply (rule ls)
     apply (rule sizes)
    apply (rule special)
    done
qed

theorem C6_batches_append_all_records_witness:
  "fst (load_csv_data sample_loader sample_pandas sample_fs sample_clock loaded_database ''farmers.csv'' 1000) = True
   \<and> SuccessfullyLoaded 2500 \<in> set (fst (snd (load_csv_data sample_loader sample_pandas sample_fs sample_clock
                                                       loaded_database ''farmers.csv'' 1000)))
   \<and> (\<exists>sent db'. to_sql (ld_engine sample_loader) (loaded_database :: (int, int) database) ''bellary_farmers''
                      (prepared sample_pandas sample_clock big_frame) 1000 = (Inr sent, db')
          \<and> map length sent = [1000, 1000, 500]
          \<and> map_of (db_tables db') ''bellary_farmers'' = Some (loaded_rows @ concat sent))"
proof -
  let ?t = "table_name (cfg_table_schema (ld_config (sample_loader :: (int, int) loader)))"
  have B: "0 < (1000::nat)" by simp
  have eng: "ld_engine (sample_loader :: (int, int) loader) = Some accepting_engine"
    "connects (accepting_engine :: (int, int) engine)"
    by (simp_all add: sample_loader_def accepting_engine_def)
  have acc: "\<And>batch. \<not> rejects_insert (accepting_engine :: (int, int) engine) ?t batch"
    by (simp add: accepting_engine_def)
  have old: "map_of (db_tables (loaded_database :: (int, int) database)) ?t = Some loaded_rows"
    by (simp add: sample_table_name loaded_database_def)
  have csv: "(sample_fs :: string \<Rightarrow> (error + (int, int) frame) option) ''farmers.csv'' = Some (Inr big_frame)"
    by (simp add: sample_fs_def)
  have n: "nrows (big_frame :: (int, int) frame) = 2500" by (simp add: big_frame_def)
  from C6_batches_append_all_records[where fs = sample_fs and csv_path = "''farmers.csv''" and pd = sample_pandas and clk = sample_clock,
          OF B eng acc old csv big_unambiguous]
  obtain sent log clk' db' where
    sql: "to_sql (ld_engine (sample_loader :: (int, int) loader)) loaded_database ?t
            (prepared sample_pandas sample_clock big_frame) (int 1000) = (Inr sent, db')"
    and load: "load_csv_data sample_loader sample_pandas sample_fs sample_clock loaded_database ''farmers.csv'' (int 1000)
            = (True, log, clk', db')"
    and lg: "SuccessfullyLoaded (nrows (big_frame :: (int, int) frame)) \<in> set log"
    and rows: "map_of (db_tables db') ?t = Some (loaded_rows @ concat sent)"
    and sp: "nrows (big_frame :: (int, int) frame) = 2500 \<and> (1000::nat) = 1000 \<longrightarrow> map length sent = [1000, 1000, 500]"
    by (elim exE conjE)
  from sp n have ml: "map length sent = [1000, 1000, 500]" by simp
  from sql have sql': "to_sql (ld_engine (sample_loader :: (int, int) loader)) loaded_database ''bellary_farmers''
            (prepared sample_pandas sample_clock big_frame) 1000 = (Inr sent, db')"
    by (simp add: sample_table_name)
  from rows have rows': "map_of (db_tables db') ''bellary_farmers'' = Some (loaded_rows @ concat sent)"
    by (simp add: sample_table_name)
  from load have load': "load_csv_data sample_loader sample_pandas sample_fs sample_clock loaded_database ''farmers.csv'' 1000
            = (True, log, clk', db')" by simp
  from lg n have lg': "SuccessfullyLoaded 2500 \<in> set log" by simp
  have "\<exists>sent db'. to_sql (ld_engine sample_loader) (loaded_database :: (int, int) database) ''bellary_farmers''
                      (prepared sample_pandas sample_clock big_frame) 1000 = (Inr sent, db')
          \<and> map length sent = [1000, 1000, 500]
          \<and> map_of (db_tables db') ''bellary_farmers'' = Some (loaded_rows @ concat sent)"
    apply (rule exI[of _ sent])
    apply (rule exI[of _ db'])
    apply (intro conjI)
      apply (rule sql')
     apply (rule ml)
    apply (rule rows')
    done
  with load' lg' show ?thesis by simp
qed

end
